theory Spec2Isabelle
  imports Complex_Main
begin

section \<open>Numbers and vectors\<close>

text \<open>
  The simulation is written in JavaScript on top of the p5.js library. JavaScript numbers
  are idealised as mathematical reals (no rounding, no NaN, no infinities); counters that
  only ever hold non-negative whole numbers (laps, checkpoint indices, timers) are
  \<open>nat\<close>. A \<open>p5.Vector\<close> created by \<open>createVector(x, y)\<close> is a pair
  of reals (its third component stays 0 throughout this program).

  The operations of \<open>p5.Vector\<close> and \<open>map\<close> are library code; they are
  written here as p5.js defines them: \<open>normalize\<close> leaves the zero vector
  unchanged, \<open>limit\<close> rescales only when the squared magnitude exceeds the square
  of the bound, \<open>map\<close> does not clamp.
\<close>

type_synonym vec = "real \<times> real"

definition vec_add :: "vec \<Rightarrow> vec \<Rightarrow> vec" where
  "vec_add a b = (fst a + fst b, snd a + snd b)"

definition vec_sub :: "vec \<Rightarrow> vec \<Rightarrow> vec" where
  "vec_sub a b = (fst a - fst b, snd a - snd b)"

definition vec_mult :: "vec \<Rightarrow> real \<Rightarrow> vec" where
  "vec_mult a k = (fst a * k, snd a * k)"

definition vec_div :: "vec \<Rightarrow> real \<Rightarrow> vec" where
  "vec_div a k = (if k = 0 then a else (fst a / k, snd a / k))"

definition vec_magSq :: "vec \<Rightarrow> real" where
  "vec_magSq a = fst a * fst a + snd a * snd a"

definition vec_mag :: "vec \<Rightarrow> real" where
  "vec_mag a = sqrt (vec_magSq a)"

definition vec_normalize :: "vec \<Rightarrow> vec" where
  "vec_normalize a = (let len = vec_mag a in if len \<noteq> 0 then vec_mult a (1 / len) else a)"

definition vec_limit :: "vec \<Rightarrow> real \<Rightarrow> vec" where
  "vec_limit a mx =
     (let mSq = vec_magSq a in
      if mSq > mx * mx then vec_mult (vec_div a (sqrt mSq)) mx else a)"

definition vec_setMag :: "vec \<Rightarrow> real \<Rightarrow> vec" where
  "vec_setMag a n = vec_mult (vec_normalize a) n"

definition vec_dist :: "vec \<Rightarrow> vec \<Rightarrow> real" where
  "vec_dist a b = vec_mag (vec_sub b a)"

definition vec_dot :: "vec \<Rightarrow> vec \<Rightarrow> real" where
  "vec_dot a b = fst a * fst b + snd a * snd b"

definition vec_lerp :: "vec \<Rightarrow> vec \<Rightarrow> real \<Rightarrow> vec" where
  "vec_lerp a b amt = (fst a + (fst b - fst a) * amt, snd a + (snd b - snd a) * amt)"

definition vec_fromAngle :: "real \<Rightarrow> vec" where
  "vec_fromAngle a = (cos a, sin a)"

definition atan2 :: "real \<Rightarrow> real \<Rightarrow> real" where
  "atan2 y x =
     (if x > 0 then arctan (y / x)
      else if x < 0 \<and> y \<ge> 0 then arctan (y / x) + pi
      else if x < 0 then arctan (y / x) - pi
      else if y > 0 then pi / 2
      else if y < 0 then - (pi / 2)
      else 0)"

definition vec_heading :: "vec \<Rightarrow> real" where
  "vec_heading a = atan2 (snd a) (fst a)"

definition p5_map :: "real \<Rightarrow> real \<Rightarrow> real \<Rightarrow> real \<Rightarrow> real \<Rightarrow> real" where
  "p5_map n start1 stop1 start2 stop2 =
     (n - start1) / (stop1 - start1) * (stop2 - start2) + start2"

text \<open>
  Reading an array out of range gives \<open>undefined\<close> in JavaScript, and handing
  \<open>undefined\<close> to \<open>p5.Vector.dist\<close> or \<open>p5.Vector.sub\<close> raises a
  \<open>TypeError\<close>. Functions that can reach such a read return \<open>error + 'a\<close>.
  An exception is not caught anywhere in the simulation: it ends the frame, and the model
  does not describe the partly updated objects it leaves behind.
\<close>

datatype error = TypeError

definition and_then :: "error + 'a \<Rightarrow> ('a \<Rightarrow> error + 'b) \<Rightarrow> error + 'b" where
  "and_then x f = (case x of Inl e \<Rightarrow> Inl e | Inr v \<Rightarrow> f v)"

section \<open>Track.js\<close>

text \<open>
  A track is taken as given: its level, its waypoints, its width and its obstacles. The
  constructor sets \<open>trackWidth\<close> to \<open>getTrackWidth()\<close>, fills \<open>waypoints\<close>
  with 80 generated points and places the obstacles at random; the generation itself, the
  kerb edges and the drawing code are outside the model. Of an obstacle only the fields the
  queries read are kept.
\<close>

datatype obstacleType = cone | barrier | oil

record obstacle =
  otype :: obstacleType
  oposition :: vec
  radius :: real

record Track =
  level :: int
  waypoints :: "vec list"
  trackWidth :: real
  obstacles :: "obstacle list"

definition getTrackWidth :: "'a Track_scheme \<Rightarrow> real" where
  "getTrackWidth t = max 100 (160 - real_of_int (level t) * 6)"

text \<open>\<open>checkObstacleCollision\<close>: the first obstacle (in generation order) whose
  centre is closer than its radius, or no hit.\<close>

fun checkObstacleCollision_loop :: "obstacle list \<Rightarrow> vec \<Rightarrow> obstacle option" where
  "checkObstacleCollision_loop [] pos = None"
| "checkObstacleCollision_loop (obs # rest) pos =
     (if vec_dist pos (oposition obs) < radius obs then Some obs
      else checkObstacleCollision_loop rest pos)"

definition checkObstacleCollision :: "'a Track_scheme \<Rightarrow> vec \<Rightarrow> obstacle option" where
  "checkObstacleCollision t pos = checkObstacleCollision_loop (obstacles t) pos"

text \<open>\<open>getObstacleAvoidanceForce\<close>: the \<open>for ... of\<close> loop with its
  accumulator \<open>avoidForce\<close>.\<close>

fun getObstacleAvoidanceForce_loop :: "obstacle list \<Rightarrow> vec \<Rightarrow> vec \<Rightarrow> real \<Rightarrow> vec \<Rightarrow> vec" where
  "getObstacleAvoidanceForce_loop [] pos vel lookAhead avoidForce = avoidForce"
| "getObstacleAvoidanceForce_loop (obs # rest) pos vel lookAhead avoidForce =
     (let toObs = vec_sub (oposition obs) pos;
          dist = vec_mag toObs
      in if dist < lookAhead + radius obs then
           (let dotProduct = vec_dot (vec_normalize vel) (vec_normalize toObs)
            in if dotProduct > 0.3 then
                 (let perpForce = vec_mult (vec_normalize (- snd toObs, fst toObs))
                                    (p5_map dist 0 lookAhead 1.5 0.3)
                  in getObstacleAvoidanceForce_loop rest pos vel lookAhead (vec_add avoidForce perpForce))
               else getObstacleAvoidanceForce_loop rest pos vel lookAhead avoidForce)
         else getObstacleAvoidanceForce_loop rest pos vel lookAhead avoidForce)"

definition getObstacleAvoidanceForce :: "'a Track_scheme \<Rightarrow> vec \<Rightarrow> vec \<Rightarrow> real \<Rightarrow> vec" where
  "getObstacleAvoidanceForce t pos vel lookAhead =
     getObstacleAvoidanceForce_loop (obstacles t) pos vel lookAhead (0, 0)"

text \<open>\<open>getClosestWaypointIndex\<close>: the scan keeps the running minimum
  \<open>closestDist\<close>, which starts at \<open>Infinity\<close> (here \<open>None\<close>), and the
  index where it was found, which starts at 0.\<close>

fun getClosestWaypointIndex_loop :: "vec list \<Rightarrow> vec \<Rightarrow> nat \<Rightarrow> real option \<Rightarrow> nat \<Rightarrow> nat" where
  "getClosestWaypointIndex_loop [] pos i closestDist closestIndex = closestIndex"
| "getClosestWaypointIndex_loop (w # ws) pos i closestDist closestIndex =
     (let d = vec_dist pos w
      in if (case closestDist of None \<Rightarrow> True | Some c \<Rightarrow> d < c)
         then getClosestWaypointIndex_loop ws pos (i + 1) (Some d) i
         else getClosestWaypointIndex_loop ws pos (i + 1) closestDist closestIndex)"

definition getClosestWaypointIndex :: "'a Track_scheme \<Rightarrow> vec \<Rightarrow> nat" where
  "getClosestWaypointIndex t pos = getClosestWaypointIndex_loop (waypoints t) pos 0 None 0"

text \<open>\<open>getTrackBoundaryForce\<close>: \<open>this.waypoints[closestIdx]\<close> is
  \<open>undefined\<close> when the index is out of range, and the distance computation that
  follows raises.\<close>

definition getTrackBoundaryForce :: "'a Track_scheme \<Rightarrow> vec \<Rightarrow> vec \<Rightarrow> error + vec" where
  "getTrackBoundaryForce t pos vel =
     (let closestIdx = getClosestWaypointIndex t pos
      in if closestIdx < length (waypoints t) then
           (let trackCenter = waypoints t ! closestIdx;
                distFromCenter = vec_dist pos trackCenter;
                maxDist = trackWidth t / 2 - 15
            in if distFromCenter > maxDist then
                 Inr (vec_mult (vec_normalize (vec_sub trackCenter pos))
                        (p5_map (distFromCenter - maxDist) 0 25 0.3 1.0))
               else Inr (0, 0))
         else Inl TypeError)"


text \<open>
  The obstacle-avoidance steering as the design document words it: every obstacle that is
  within range and ahead contributes one deflection, and the contributions are added up.
  These three definitions follow the document, not the loop above; the loop is compared
  with them below.
\<close>

definition sum_vecs :: "vec list \<Rightarrow> vec" where
  "sum_vecs vs = foldr vec_add vs (0, 0)"

definition obstacleQualifies :: "vec \<Rightarrow> vec \<Rightarrow> real \<Rightarrow> obstacle \<Rightarrow> bool" where
  "obstacleQualifies pos vel lookAhead obs =
     (vec_mag (vec_sub (oposition obs) pos) < lookAhead + radius obs
      \<and> vec_dot (vec_normalize vel) (vec_normalize (vec_sub (oposition obs) pos)) > 0.3)"

definition obstacleDeflection :: "vec \<Rightarrow> real \<Rightarrow> obstacle \<Rightarrow> vec" where
  "obstacleDeflection pos lookAhead obs =
     (let toObs = vec_sub (oposition obs) pos
      in vec_mult (vec_normalize (- snd toObs, fst toObs)) (p5_map (vec_mag toObs) 0 lookAhead 1.5 0.3))"

definition obstacleAvoidance_spec :: "vec \<Rightarrow> vec \<Rightarrow> obstacle list \<Rightarrow> real \<Rightarrow> vec" where
  "obstacleAvoidance_spec pos vel obss lookAhead =
     sum_vecs (map (obstacleDeflection pos lookAhead) (filter (obstacleQualifies pos vel lookAhead) obss))"

section \<open>Vehicule.js\<close>

text \<open>The canvas is created once by \<open>createCanvas(1000, 700)\<close>; \<open>width\<close> and
  \<open>height\<close> are its dimensions.\<close>

definition width :: real where
  "width = 1000"

definition height :: real where
  "height = 700"

record Vehicule =
  position :: vec
  velocity :: vec
  acceleration :: vec
  r :: real
  maxforce :: real
  maxspeed :: real

definition applyForce :: "'a Vehicule_scheme \<Rightarrow> vec \<Rightarrow> 'a Vehicule_scheme" where
  "applyForce v force = v\<lparr>acceleration := vec_add (acceleration v) force\<rparr>"

definition Vehicule_update :: "'a Vehicule_scheme \<Rightarrow> 'a Vehicule_scheme" where
  "Vehicule_update v =
     (let v1 = v\<lparr>velocity := vec_add (velocity v) (acceleration v)\<rparr>;
          v2 = v1\<lparr>velocity := vec_limit (velocity v1) (maxspeed v1)\<rparr>;
          v3 = v2\<lparr>position := vec_add (position v2) (velocity v2)\<rparr>
      in v3\<lparr>acceleration := vec_mult (acceleration v3) 0\<rparr>)"

definition edges :: "'a Vehicule_scheme \<Rightarrow> 'a Vehicule_scheme" where
  "edges v =
     (let margin = r v;
          v1 = (if fst (position v) < margin
                then v\<lparr>position := (margin, snd (position v)),
                       velocity := (fst (velocity v) * (- 0.5), snd (velocity v))\<rparr>
                else if fst (position v) > width - margin
                then v\<lparr>position := (width - margin, snd (position v)),
                       velocity := (fst (velocity v) * (- 0.5), snd (velocity v))\<rparr>
                else v)
      in if snd (position v1) < margin
         then v1\<lparr>position := (fst (position v1), margin),
                 velocity := (fst (velocity v1), snd (velocity v1) * (- 0.5))\<rparr>
         else if snd (position v1) > height - margin
         then v1\<lparr>position := (fst (position v1), height - margin),
                 velocity := (fst (velocity v1), snd (velocity v1) * (- 0.5))\<rparr>
         else v1)"

definition seek :: "'a Vehicule_scheme \<Rightarrow> vec \<Rightarrow> vec" where
  "seek v target =
     (let desired = vec_setMag (vec_sub target (position v)) (maxspeed v);
          steer = vec_sub desired (velocity v)
      in vec_limit steer (maxforce v))"

section \<open>The fields both kinds of racer declare\<close>

text \<open>
  \<open>PlayerCar\<close> and \<open>FollowerCar\<close> both extend \<open>Vehicule\<close>, and each
  declares the same race-tracking fields in its constructor. They are collected once, in
  \<open>Racer\<close>, so that both records can keep the source's field names.
\<close>

record Racer = Vehicule +
  track :: "Track option"
  currentWaypointIndex :: nat
  waypointReachDistance :: real
  laps :: nat
  checkpointsReached :: nat
  lastCheckpoint :: nat
  finished :: bool

section \<open>PlayerCar.js\<close>

text \<open>The exhaust particles (\<open>nitroParticles\<close>) and the chassis dimensions only feed
  the drawing code and are left out.\<close>

record PlayerCar = Racer +
  nitroMaxspeed :: real
  acceleration_power :: real
  brake_power :: real
  turn_speed :: real
  friction :: real
  drift_factor :: real
  angle :: real
  autoMode :: bool
  nitroFuel :: real
  nitroMaxFuel :: real
  nitroActive :: bool
  nitroDrainRate :: real
  nitroRechargeRate :: real
  nitroBoostPower :: real
  onOil :: bool
  oilTimer :: nat
  slowdownTimer :: nat

definition PlayerCar_new :: "real \<Rightarrow> real \<Rightarrow> Track option \<Rightarrow> PlayerCar" where
  "PlayerCar_new x y trk =
     \<lparr>position = (x, y), velocity = (0, 0), acceleration = (0, 0),
      r = 12, maxforce = 0.35, maxspeed = 6,
      track = trk, currentWaypointIndex = 0, waypointReachDistance = 65,
      laps = 0, checkpointsReached = 0, lastCheckpoint = 0, finished = False,
      nitroMaxspeed = 10, acceleration_power = 0.18, brake_power = 0.12, turn_speed = 0.065,
      friction = 0.97, drift_factor = 0.90,
      angle = (case trk of None \<Rightarrow> 0
               | Some t \<Rightarrow> if length (waypoints t) > 1
                            then vec_heading (vec_sub (waypoints t ! 1) (waypoints t ! 0)) else 0),
      autoMode = False, nitroFuel = 100, nitroMaxFuel = 100, nitroActive = False,
      nitroDrainRate = 1.5, nitroRechargeRate = 0.3, nitroBoostPower = 0.35,
      onOil = False, oilTimer = 0, slowdownTimer = 0\<rparr>"

text \<open>Key codes of p5.js; the letters are written as numbers in the source.\<close>

definition UP_ARROW :: nat where "UP_ARROW = 38"
definition DOWN_ARROW :: nat where "DOWN_ARROW = 40"
definition LEFT_ARROW :: nat where "LEFT_ARROW = 37"
definition RIGHT_ARROW :: nat where "RIGHT_ARROW = 39"
definition SHIFT :: nat where "SHIFT = 16"

definition handleInput :: "(nat \<Rightarrow> bool) \<Rightarrow> PlayerCar \<Rightarrow> PlayerCar" where
  "handleInput keyIsDown c =
     (if finished c then c
      else
        let c1 = (if keyIsDown UP_ARROW \<or> keyIsDown 87
                  then c\<lparr>velocity := vec_add (velocity c)
                           (vec_mult (vec_fromAngle (angle c)) (acceleration_power c))\<rparr>
                  else c);
            c2 = (if keyIsDown DOWN_ARROW \<or> keyIsDown 83
                  then c1\<lparr>velocity := vec_add (velocity c1)
                           (vec_mult (vec_fromAngle (angle c1)) (- brake_power c1))\<rparr>
                  else c1);
            speed = vec_mag (velocity c2);
            c3 = (if speed > 0.5
                  then (let c2a = (if keyIsDown LEFT_ARROW \<or> keyIsDown 65
                                   then c2\<lparr>angle := angle c2 - turn_speed c2 * min (speed / 3) 1\<rparr>
                                   else c2)
                        in if keyIsDown RIGHT_ARROW \<or> keyIsDown 68
                           then c2a\<lparr>angle := angle c2a + turn_speed c2a * min (speed / 3) 1\<rparr>
                           else c2a)
                  else c2)
        in c3\<lparr>nitroActive := ((keyIsDown SHIFT \<or> keyIsDown 78) \<and> nitroFuel c3 > 0)\<rparr>)"

definition handleAutoPilot :: "PlayerCar \<Rightarrow> error + PlayerCar" where
  "handleAutoPilot c =
     (case track c of
        None \<Rightarrow> Inr c
      | Some t \<Rightarrow>
          if length (waypoints t) = 0 then Inr c
          else
            let expectedNext = (lastCheckpoint c + 1) mod length (waypoints t);
                target = waypoints t ! expectedNext;
                desired0 = vec_sub target (position c);
                distance = vec_mag desired0;
                speed = (if distance < 100 then p5_map distance 0 100 2 (maxspeed c) else maxspeed c);
                desired = vec_mult (vec_normalize desired0) speed;
                steer = vec_limit (vec_sub desired (velocity c)) (maxforce c);
                c1 = c\<lparr>velocity := vec_add (velocity c) steer\<rparr>;
                c2 = (if vec_mag (velocity c1) > 0.5
                      then c1\<lparr>angle := vec_heading (velocity c1)\<rparr> else c1);
                obstacleForce = vec_mult (getObstacleAvoidanceForce t (position c2) (velocity c2) 60) 2.0;
                c3 = c2\<lparr>velocity := vec_add (velocity c2) obstacleForce\<rparr>
            in and_then (getTrackBoundaryForce t (position c3) (velocity c3))
                 (\<lambda>boundaryForce.
                    let c4 = c3\<lparr>velocity := vec_add (velocity c3) (vec_mult boundaryForce 1.5)\<rparr>
                    in Inr (c4\<lparr>nitroActive := (vec_mag (velocity c4) > 4 \<and> nitroFuel c4 > 30)\<rparr>)))"

definition updateNitro :: "PlayerCar \<Rightarrow> PlayerCar" where
  "updateNitro c =
     (if nitroActive c \<and> nitroFuel c > 0
      then
        let c1 = c\<lparr>velocity := vec_add (velocity c)
                       (vec_mult (vec_fromAngle (angle c)) (nitroBoostPower c))\<rparr>;
            c2 = c1\<lparr>nitroFuel := nitroFuel c1 - nitroDrainRate c1\<rparr>
        in c2\<lparr>nitroFuel := max 0 (nitroFuel c2)\<rparr>
      else
        let c1 = c\<lparr>nitroFuel := nitroFuel c + nitroRechargeRate c\<rparr>
        in c1\<lparr>nitroFuel := min (nitroMaxFuel c1) (nitroFuel c1)\<rparr>)"

definition handleObstacles :: "PlayerCar \<Rightarrow> PlayerCar" where
  "handleObstacles c =
     (case track c of
        None \<Rightarrow> c
      | Some t \<Rightarrow>
          let c1 = (case checkObstacleCollision t (position c) of
                      None \<Rightarrow> c
                    | Some obs \<Rightarrow>
                        (case otype obs of
                           cone \<Rightarrow> c\<lparr>velocity := vec_mult (velocity c) 0.7, slowdownTimer := 30\<rparr>
                         | barrier \<Rightarrow>
                             (let bounceDir = vec_mult (vec_normalize
                                                (vec_sub (position c) (oposition obs))) 3
                              in c\<lparr>velocity := vec_mult (vec_add (velocity c) bounceDir) 0.5\<rparr>)
                         | oil \<Rightarrow> c\<lparr>onOil := True, oilTimer := 60\<rparr>));
              c2 = (if oilTimer c1 > 0
                    then (let c1a = c1\<lparr>oilTimer := oilTimer c1 - 1, drift_factor := 0.98\<rparr>
                          in if oilTimer c1a \<le> 0
                             then c1a\<lparr>drift_factor := 0.90, onOil := False\<rparr> else c1a)
                    else c1)
          in if slowdownTimer c2 > 0
             then c2\<lparr>slowdownTimer := slowdownTimer c2 - 1,
                     velocity := vec_mult (velocity c2) 0.98\<rparr>
             else c2)"

definition handleBoundary :: "PlayerCar \<Rightarrow> error + PlayerCar" where
  "handleBoundary c =
     (case track c of
        None \<Rightarrow> Inr c
      | Some t \<Rightarrow>
          and_then (getTrackBoundaryForce t (position c) (velocity c))
            (\<lambda>boundaryForce.
               if vec_mag boundaryForce > 0
               then Inr (c\<lparr>velocity := vec_add (vec_mult (velocity c) 0.85)
                                        (vec_mult boundaryForce 2)\<rparr>)
               else Inr c))"

text \<open>\<open>checkWaypoints\<close>: with no waypoints the index \<open>(lastCheckpoint + 1) % 0\<close>
  is \<open>NaN\<close>, the waypoint read is \<open>undefined\<close>, and the distance computation
  raises. The lap test compares the counter with \<open>waypoints.length * 0.8\<close>; for
  waypoint counts of any practical size the rounded product decides this comparison as the
  exact one does.\<close>

definition checkWaypoints :: "PlayerCar \<Rightarrow> error + PlayerCar" where
  "checkWaypoints c =
     (case track c of
        None \<Rightarrow> Inr c
      | Some t \<Rightarrow>
          if length (waypoints t) = 0 then Inl TypeError
          else
            let expectedNext = (lastCheckpoint c + 1) mod length (waypoints t);
                dist = vec_dist (position c) (waypoints t ! expectedNext)
            in if dist < waypointReachDistance c
               then (let c1 = c\<lparr>lastCheckpoint := expectedNext,
                                 checkpointsReached := checkpointsReached c + 1\<rparr>
                     in if expectedNext = 0
                           \<and> real (checkpointsReached c1) \<ge> real (length (waypoints t)) * 0.8
                        then Inr (c1\<lparr>laps := laps c1 + 1, checkpointsReached := 0\<rparr>)
                        else Inr c1)
               else Inr c)"

text \<open>\<open>update\<close>, in two parts: \<open>PlayerCar_update_integrate\<close> is the body up to and
  including \<open>this.position.add(this.velocity)\<close>; \<open>PlayerCar_update\<close> is the whole
  method.\<close>

definition PlayerCar_update_integrate :: "(nat \<Rightarrow> bool) \<Rightarrow> PlayerCar \<Rightarrow> error + PlayerCar" where
  "PlayerCar_update_integrate keyIsDown c =
     and_then (if autoMode c then handleAutoPilot c else Inr (handleInput keyIsDown c))
       (\<lambda>c1.
          let c2 = updateNitro c1;
              c3 = c2\<lparr>velocity := vec_mult (velocity c2) (friction c2)\<rparr>;
              facingDir = vec_fromAngle (angle c3);
              forwardSpeed = vec_dot (velocity c3) facingDir;
              forwardVel = vec_mult facingDir forwardSpeed;
              c4 = c3\<lparr>velocity := vec_lerp (velocity c3) forwardVel (1 - drift_factor c3)\<rparr>;
              currentMaxSpeed = (if nitroActive c4 then nitroMaxspeed c4 else maxspeed c4);
              c5 = c4\<lparr>velocity := vec_limit (velocity c4) currentMaxSpeed\<rparr>
          in Inr (c5\<lparr>position := vec_add (position c5) (velocity c5)\<rparr>))"

definition PlayerCar_update :: "(nat \<Rightarrow> bool) \<Rightarrow> PlayerCar \<Rightarrow> error + PlayerCar" where
  "PlayerCar_update keyIsDown c =
     (if finished c then Inr c
      else
        and_then (PlayerCar_update_integrate keyIsDown c)
          (\<lambda>c6. and_then (handleBoundary c6)
             (\<lambda>c7. and_then (checkWaypoints (handleObstacles c7))
                (\<lambda>c8. Inr (edges c8)))))"

text \<open>A run of frames: one key state per frame; an exception ends the run.\<close>

fun PlayerCar_steps :: "(nat \<Rightarrow> bool) list \<Rightarrow> PlayerCar \<Rightarrow> error + PlayerCar" where
  "PlayerCar_steps [] c = Inr c"
| "PlayerCar_steps (k # ks) c = and_then (PlayerCar_update k c) (PlayerCar_steps ks)"

section \<open>FollowerCar.js\<close>

text \<open>The colour and the number painted on the car are drawn at random and only feed the
  drawing code; they are left out.\<close>

record FollowerCar = Racer +
  pathWeight :: real
  separationWeight :: real
  boundaryWeight :: real
  desiredSeparation :: real
  finishTime :: real

definition FollowerCar_new :: "real \<Rightarrow> real \<Rightarrow> Track option \<Rightarrow> FollowerCar" where
  "FollowerCar_new x y trk =
     \<lparr>position = (x, y), velocity = (0, 0), acceleration = (0, 0),
      r = 10, maxforce = 0.24, maxspeed = 4.0,
      track = trk, currentWaypointIndex = 0, waypointReachDistance = 55,
      laps = 0, checkpointsReached = 0, lastCheckpoint = 0, finished = False,
      pathWeight = 1.5, separationWeight = 2.5, boundaryWeight = 2.0,
      desiredSeparation = 50, finishTime = 0\<rparr>"

text \<open>\<open>followPath\<close> returns the steering force and, as a side effect, advances the
  waypoint index and the lap counters; the model returns the car with the force.\<close>

definition followPath :: "FollowerCar \<Rightarrow> error + FollowerCar \<times> vec" where
  "followPath c =
     (case track c of
        None \<Rightarrow> Inr (c, (0, 0))
      | Some t \<Rightarrow>
          if currentWaypointIndex c < length (waypoints t)
          then
            let target = waypoints t ! currentWaypointIndex c;
                distance = vec_dist (position c) target;
                c3 = (if distance < waypointReachDistance c
                      then (let c1 = c\<lparr>currentWaypointIndex :=
                                          (currentWaypointIndex c + 1) mod length (waypoints t)\<rparr>;
                                c2 = c1\<lparr>lastCheckpoint := currentWaypointIndex c1,
                                         checkpointsReached := checkpointsReached c1 + 1\<rparr>
                            in if currentWaypointIndex c2 = 0
                                  \<and> real (checkpointsReached c2) \<ge> real (length (waypoints t)) * 0.8
                               then c2\<lparr>laps := laps c2 + 1, checkpointsReached := 0\<rparr>
                               else c2)
                      else c)
            in Inr (c3, seek c3 (waypoints t ! currentWaypointIndex c3))
          else Inl TypeError)"

definition avoidBoundary :: "FollowerCar \<Rightarrow> error + vec" where
  "avoidBoundary c =
     (case track c of
        None \<Rightarrow> Inr (0, 0)
      | Some t \<Rightarrow> getTrackBoundaryForce t (position c) (velocity c))"

definition avoidCar :: "FollowerCar \<Rightarrow> 'a Vehicule_scheme \<Rightarrow> vec" where
  "avoidCar c car =
     (let distance = vec_dist (position c) (position car)
      in if distance > 0 \<and> distance < desiredSeparation c
         then vec_div (vec_normalize (vec_sub (position c) (position car))) distance
         else (0, 0))"

text \<open>\<open>separate\<close>: the car skips itself in the list (\<open>other === this\<close>); the model
  knows the car by its index \<open>self\<close> in \<open>vehicles\<close>.\<close>

fun separate_loop :: "FollowerCar \<Rightarrow> nat \<Rightarrow> FollowerCar list \<Rightarrow> nat \<Rightarrow> vec \<Rightarrow> nat \<Rightarrow> vec \<times> nat" where
  "separate_loop c self [] i steer count = (steer, count)"
| "separate_loop c self (other # rest) i steer count =
     (if i = self then separate_loop c self rest (i + 1) steer count
      else
        let distance = vec_dist (position c) (position other)
        in if distance > 0 \<and> distance < desiredSeparation c
           then separate_loop c self rest (i + 1)
                  (vec_add steer (vec_div (vec_normalize (vec_sub (position c) (position other))) distance))
                  (count + 1)
           else separate_loop c self rest (i + 1) steer count)"

definition separate :: "FollowerCar \<Rightarrow> nat \<Rightarrow> FollowerCar list \<Rightarrow> vec" where
  "separate c self vehicles =
     (case separate_loop c self vehicles 0 (0, 0) 0 of
        (steer0, count) \<Rightarrow>
          let steer = (if count > 0 then vec_div steer0 (real count) else steer0)
          in if vec_mag steer > 0
             then vec_limit (vec_sub (vec_setMag steer (maxspeed c)) (velocity c)) (maxforce c * 2)
             else steer)"

definition applyBehaviors :: "FollowerCar list \<Rightarrow> nat \<Rightarrow> 'a Vehicule_scheme \<Rightarrow> FollowerCar \<Rightarrow> error + FollowerCar" where
  "applyBehaviors vehicles self targetCar c =
     (if finished c then Inr c
      else
        and_then (followPath c)
          (\<lambda>(c1, pathForce0).
             let pathForce = vec_mult pathForce0 (pathWeight c1);
                 separationForce = vec_mult (separate c1 self vehicles) (separationWeight c1);
                 playerAvoid = vec_mult (avoidCar c1 targetCar) 2.0
             in and_then (avoidBoundary c1)
                  (\<lambda>boundaryForce0.
                     let boundaryForce = vec_mult boundaryForce0 (boundaryWeight c1)
                     in Inr (applyForce (applyForce (applyForce (applyForce c1 pathForce)
                               separationForce) playerAvoid) boundaryForce))))"

definition FollowerCar_update :: "FollowerCar \<Rightarrow> FollowerCar" where
  "FollowerCar_update c = (if finished c then c else edges (Vehicule_update c))"

definition getRaceProgress :: "FollowerCar \<Rightarrow> nat" where
  "getRaceProgress c =
     (case track c of
        None \<Rightarrow> 0
      | Some t \<Rightarrow> laps c * length (waypoints t) + lastCheckpoint c)"

definition FollowerCar_reset :: "vec \<Rightarrow> nat \<Rightarrow> Track \<Rightarrow> FollowerCar \<Rightarrow> error + FollowerCar" where
  "FollowerCar_reset spawnPos waypointIndex trk c =
     (let c1 = c\<lparr>position := spawnPos, velocity := (0, 0), track := Some trk,
                  currentWaypointIndex := waypointIndex, lastCheckpoint := waypointIndex,
                  laps := 0, checkpointsReached := 0, finished := False\<rparr>
      in if length (waypoints trk) = 0 then Inl TypeError
         else
           let nextIdx = (waypointIndex + 1) mod length (waypoints trk);
               dir = vec_mult (vec_normalize (vec_sub (waypoints trk ! nextIdx) spawnPos)) 2
           in Inr (c1\<lparr>velocity := dir\<rparr>))"

section \<open>sketch.js: the race\<close>

text \<open>
  The globals of the sketch that the simulation reads or writes. Drawing, the head-up
  display and the stored unlock state of the level menu are outside the model;
  \<open>unlockedLevel\<close> is the field of the level menu that \<open>unlockLevel\<close> raises.
\<close>

datatype GameState = menu | levelSelect | playing | levelComplete | raceLost | gameOver

datatype Winner = player | ai

record game =
  gameState :: GameState
  currentLevel :: int
  raceFinished :: bool
  winner :: "Winner option"
  playerCar :: PlayerCar
  aiCars :: "FollowerCar list"
  unlockedLevel :: int

definition MAX_LEVEL :: int where
  "MAX_LEVEL = 10"

definition LAPS_TO_WIN :: nat where
  "LAPS_TO_WIN = 2"

text \<open>The progress by which \<open>updateRacePositions\<close> ranks the player and every
  opponent; \<open>t\<close> is the global track.\<close>

definition raceProgress :: "Track \<Rightarrow> 'a Racer_scheme \<Rightarrow> nat" where
  "raceProgress t c = laps c * length (waypoints t) + lastCheckpoint c"

fun checkRaceFinished_ai :: "FollowerCar list \<Rightarrow> game \<Rightarrow> game" where
  "checkRaceFinished_ai [] g = g"
| "checkRaceFinished_ai (a # rest) g =
     (if laps a \<ge> LAPS_TO_WIN \<and> \<not> raceFinished g
      then g\<lparr>raceFinished := True, winner := Some ai, gameState := raceLost\<rparr>
      else checkRaceFinished_ai rest g)"

definition checkRaceFinished :: "game \<Rightarrow> game" where
  "checkRaceFinished g =
     (if laps (playerCar g) \<ge> LAPS_TO_WIN \<and> \<not> raceFinished g
      then
        let g1 = g\<lparr>raceFinished := True, winner := Some player,
                    playerCar := (playerCar g)\<lparr>finished := True\<rparr>\<rparr>;
            g2 = (if currentLevel g1 + 1 > unlockedLevel g1
                  then g1\<lparr>unlockedLevel := currentLevel g1 + 1\<rparr> else g1)
        in if currentLevel g2 \<ge> MAX_LEVEL
           then g2\<lparr>gameState := gameOver\<rparr>
           else g2\<lparr>gameState := levelComplete\<rparr>
      else checkRaceFinished_ai (aiCars g) g)"

text \<open>The opponents are stepped one after the other, in place: a car sees the cars
  before it in the list already moved. \<open>n\<close> counts the cars still to step.\<close>

fun updateGame_ai :: "nat \<Rightarrow> nat \<Rightarrow> PlayerCar \<Rightarrow> FollowerCar list \<Rightarrow> error + FollowerCar list" where
  "updateGame_ai 0 i p cars = Inr cars"
| "updateGame_ai (Suc n) i p cars =
     and_then (applyBehaviors cars i p (cars ! i))
       (\<lambda>c. updateGame_ai n (i + 1) p (cars[i := FollowerCar_update c]))"

definition updateGame :: "(nat \<Rightarrow> bool) \<Rightarrow> game \<Rightarrow> error + game" where
  "updateGame keyIsDown g =
     and_then (PlayerCar_update keyIsDown (playerCar g))
       (\<lambda>p. and_then (updateGame_ai (length (aiCars g)) 0 p (aiCars g))
          (\<lambda>cars. Inr (checkRaceFinished (g\<lparr>playerCar := p, aiCars := cars\<rparr>))))"

definition draw :: "(nat \<Rightarrow> bool) \<Rightarrow> game \<Rightarrow> error + game" where
  "draw keyIsDown g = (if gameState g = playing then updateGame keyIsDown g else Inr g)"

text \<open>A run of calls of \<open>draw\<close>, one key state per call. Outside the state
  \<open>playing\<close> the sketch only paints; \<open>initLevel\<close>, which alone returns to
  \<open>playing\<close>, builds a new track and new cars and is outside the model.\<close>

fun draw_frames :: "(nat \<Rightarrow> bool) list \<Rightarrow> game \<Rightarrow> error + game" where
  "draw_frames [] g = Inr g"
| "draw_frames (k # ks) g = and_then (draw k g) (draw_frames ks)"

section \<open>Predicates used in the statements\<close>

text \<open>A racer is on schedule when it is on the track \<open>t\<close>, its checkpoint index is
  within the track, and its checkpoint counter equals its checkpoint index: the
  constructors start both at 0, and every checkpoint advances both.\<close>

definition onSchedule :: "Track \<Rightarrow> 'a Racer_scheme \<Rightarrow> bool" where
  "onSchedule t c =
     (track c = Some t \<and> lastCheckpoint c < length (waypoints t)
      \<and> checkpointsReached c = lastCheckpoint c)"

text \<open>No frame raises for a racer without a track, or on a track that has waypoints.\<close>

definition hasWaypoints :: "'a Racer_scheme \<Rightarrow> bool" where
  "hasWaypoints c = (case track c of None \<Rightarrow> True | Some t \<Rightarrow> waypoints t \<noteq> [])"

text \<open>\<open>sameCar c c'\<close>: the fields that no method writes after construction (and the
  \<open>finished\<close> flag, which only \<open>checkRaceFinished\<close> writes) agree.
  \<open>sameRace c c'\<close>: the lap and checkpoint counters agree.\<close>

definition sameCar :: "PlayerCar \<Rightarrow> PlayerCar \<Rightarrow> bool" where
  "sameCar c c' =
     (track c' = track c \<and> finished c' = finished c \<and> maxspeed c' = maxspeed c
      \<and> nitroMaxspeed c' = nitroMaxspeed c \<and> nitroMaxFuel c' = nitroMaxFuel c
      \<and> nitroDrainRate c' = nitroDrainRate c \<and> nitroRechargeRate c' = nitroRechargeRate c)"

definition sameRace :: "'a Racer_scheme \<Rightarrow> 'a Racer_scheme \<Rightarrow> bool" where
  "sameRace c c' =
     (laps c' = laps c \<and> lastCheckpoint c' = lastCheckpoint c
      \<and> checkpointsReached c' = checkpointsReached c)"

section \<open>Sample tracks, cars and key states\<close>

text \<open>Small tracks along the x axis (so that every distance is a plain number), a track
  with 80 waypoints as the generator makes them, and cars built by the constructors.\<close>

definition track0 :: Track where
  "track0 = \<lparr>level = 10, waypoints = [(0, 0), (200, 0)], trackWidth = 100, obstacles = []\<rparr>"

definition trackObs :: "obstacle list \<Rightarrow> Track" where
  "trackObs obss = \<lparr>level = 10, waypoints = [(0, 0), (200, 0)], trackWidth = 100, obstacles = obss\<rparr>"

definition trackC :: Track where
  "trackC = \<lparr>level = 10, waypoints = [(700, 350), (900, 350)], trackWidth = 100, obstacles = []\<rparr>"

definition track80 :: Track where
  "track80 = \<lparr>level = 1, waypoints = map (\<lambda>i. (real i * 10, 0)) [0..<80], trackWidth = 154,
              obstacles = []\<rparr>"

definition noKeys :: "nat \<Rightarrow> bool" where
  "noKeys k = False"

definition shiftKey :: "nat \<Rightarrow> bool" where
  "shiftKey k = (k = 16)"

definition playerFast :: PlayerCar where
  "playerFast = (PlayerCar_new 650 350 (Some trackC))\<lparr>velocity := (6, 0)\<rparr>"

definition player79 :: "nat \<Rightarrow> PlayerCar" where
  "player79 n = (PlayerCar_new 0 0 (Some track80))\<lparr>lastCheckpoint := 79, checkpointsReached := n\<rparr>"

definition follower79 :: "nat \<Rightarrow> FollowerCar" where
  "follower79 n = (FollowerCar_new 790 0 (Some track80))
                    \<lparr>currentWaypointIndex := 79, lastCheckpoint := 79, checkpointsReached := n\<rparr>"

definition trackY :: Track where
  "trackY = \<lparr>level = 10, waypoints = [(0, 100), (200, 100)], trackWidth = 100, obstacles = []\<rparr>"

definition aiLap2 :: FollowerCar where
  "aiLap2 = (FollowerCar_new 100 100 (Some trackY))\<lparr>laps := 2, velocity := (3, 0)\<rparr>"

definition raceAiWins :: game where
  "raceAiWins = \<lparr>gameState = playing, currentLevel = 1, raceFinished = False, winner = None,
                 playerCar = PlayerCar_new 0 100 (Some trackY), aiCars = [aiLap2],
                 unlockedLevel = 1\<rparr>"

definition racePlayerWins :: game where
  "racePlayerWins = raceAiWins\<lparr>playerCar := (PlayerCar_new 0 100 (Some trackY))\<lparr>laps := 2\<rparr>\<rparr>"

text \<open>The last frame of a lost race: an opponent on its second lap stands on the last
  waypoint; \<open>raceOver\<close> is the game that frame leaves.\<close>

definition follower0 :: "nat \<Rightarrow> FollowerCar" where
  "follower0 n = (FollowerCar_new 0 0 (Some track80))\<lparr>checkpointsReached := n\<rparr>"

definition playerStart :: PlayerCar where
  "playerStart = PlayerCar_new 20 100 (Some trackY)"

definition aiLastWaypoint :: FollowerCar where
  "aiLastWaypoint = (FollowerCar_new 200 100 (Some trackY))
     \<lparr>laps := 1, currentWaypointIndex := 1, lastCheckpoint := 1, checkpointsReached := 1,
      velocity := (3, 0)\<rparr>"

definition aiOverTheLine :: FollowerCar where
  "aiOverTheLine = aiLastWaypoint
     \<lparr>position := (5066 / 25, 100), velocity := (66 / 25, 0), acceleration := (0, 0),
      currentWaypointIndex := 0, laps := 2, checkpointsReached := 0, lastCheckpoint := 0\<rparr>"

definition raceLastFrame :: game where
  "raceLastFrame = \<lparr>gameState = playing, currentLevel = 1, raceFinished = False, winner = None,
                    playerCar = playerStart, aiCars = [aiLastWaypoint], unlockedLevel = 1\<rparr>"

definition raceOver :: game where
  "raceOver = \<lparr>gameState = raceLost, currentLevel = 1, raceFinished = True, winner = Some ai,
               playerCar = playerStart, aiCars = [aiOverTheLine], unlockedLevel = 1\<rparr>"

section \<open>Track width\<close>

text \<open>
  C9. For every level from 1 to 10 the track width is \<open>max(100, 160 - 6 * level)\<close>;
  on these levels the lower bound 100 is reached only at level 10, so the width is
  \<open>160 - 6 * level\<close>; the width never grows with the level, and at level 1 it is 154.
\<close>

theorem getTrackWidth_levels:
  "\<forall>l \<in> {1..10}. getTrackWidth (t\<lparr>level := l\<rparr>) = max 100 (160 - 6 * real_of_int l)
      \<and> getTrackWidth (t\<lparr>level := l\<rparr>) = 160 - 6 * real_of_int l
      \<and> (\<forall>l' \<in> {l..10}. getTrackWidth (t\<lparr>level := l'\<rparr>) \<le> getTrackWidth (t\<lparr>level := l\<rparr>))
      \<and> getTrackWidth (t\<lparr>level := 1\<rparr>) = 154"
  by (auto simp: getTrackWidth_def)

theorem getTrackWidth_levels_witness:
  "getTrackWidth \<lparr>level = 3, waypoints = [], trackWidth = 0, obstacles = []\<rparr> = 142
   \<and> getTrackWidth \<lparr>level = 10, waypoints = [], trackWidth = 0, obstacles = []\<rparr> = 100
   \<and> getTrackWidth \<lparr>level = 1, waypoints = [], trackWidth = 0, obstacles = []\<rparr> = 154"
  using getTrackWidth_levels [of "\<lparr>level = 3, waypoints = [], trackWidth = 0, obstacles = []\<rparr>"]
  by (simp add: getTrackWidth_def)


section \<open>Facts about vectors\<close>

lemma vec_magSq_nonneg: "0 \<le> vec_magSq a"
  by (simp add: vec_magSq_def)

lemma vec_mag_nonneg: "0 \<le> vec_mag a"
  by (simp add: vec_mag_def vec_magSq_nonneg)

lemma vec_magSq_zero_iff: "vec_magSq a = 0 \<longleftrightarrow> a = (0, 0)"
proof -
  obtain x y where a: "a = (x, y)" by (cases a)
  have "x * x + y * y = 0 \<longleftrightarrow> x = 0 \<and> y = 0"
    by (metis add_nonneg_eq_0_iff mult_eq_0_iff zero_le_square add.right_neutral mult_zero_left)
  then show ?thesis by (simp add: a vec_magSq_def)
qed

lemma vec_mag_zero_iff: "vec_mag a = 0 \<longleftrightarrow> a = (0, 0)"
  by (simp add: vec_mag_def vec_magSq_zero_iff)

lemma vec_magSq_mult: "vec_magSq (vec_mult a k) = k * k * vec_magSq a"
  by (simp add: vec_magSq_def vec_mult_def algebra_simps)

lemma vec_mag_mult: "vec_mag (vec_mult a k) = \<bar>k\<bar> * vec_mag a"
  by (simp add: vec_mag_def vec_magSq_mult real_sqrt_mult)

lemma vec_mag_normalize: "a \<noteq> (0, 0) \<Longrightarrow> vec_mag (vec_normalize a) = 1"
  using vec_mag_nonneg [of a]
  by (simp add: vec_normalize_def Let_def vec_mag_mult vec_mag_zero_iff)

lemma vec_normalize_zero: "vec_normalize (0, 0) = (0, 0)"
  by (simp add: vec_normalize_def Let_def vec_mag_def vec_magSq_def)

lemma vec_mag_x0: "vec_mag (x, 0) = \<bar>x\<bar>"
  by (simp add: vec_mag_def vec_magSq_def)

lemma vec_mag_0y: "vec_mag (0, y) = \<bar>y\<bar>"
  by (simp add: vec_mag_def vec_magSq_def)

lemma vec_mag_limit: "0 \<le> mx \<Longrightarrow> vec_mag (vec_limit a mx) \<le> mx"
proof -
  assume mx: "0 \<le> mx"
  show ?thesis
  proof (cases "vec_magSq a > mx * mx")
    case True
    then have pos: "0 < vec_magSq a" using mx by (smt (verit) mult_nonneg_nonneg)
    then have s: "sqrt (vec_magSq a) \<noteq> 0" by simp
    have "vec_div a (sqrt (vec_magSq a)) = vec_mult a (1 / vec_mag a)"
      using s by (simp add: vec_div_def vec_mult_def vec_mag_def)
    then have "vec_mag (vec_div a (sqrt (vec_magSq a))) = 1"
      using s vec_mag_nonneg [of a] by (simp add: vec_mag_mult) (simp add: vec_mag_def)
    then show ?thesis using True mx
      by (simp add: vec_limit_def Let_def vec_mag_mult)
  next
    case False
    then have "vec_magSq a \<le> mx * mx" by simp
    then have "sqrt (vec_magSq a) \<le> sqrt (mx * mx)" by (rule real_sqrt_le_mono)
    then show ?thesis using False mx by (simp add: vec_limit_def Let_def vec_mag_def)
  qed
qed


section \<open>The nearest waypoint\<close>

lemma closest_loop_inv:
  assumes "case cd of None \<Rightarrow> pre = []
           | Some c \<Rightarrow> j < length pre \<and> c = vec_dist pos (pre ! j) \<and> (\<forall>w \<in> set pre. c \<le> vec_dist pos w)"
    and "pre @ ws \<noteq> []"
  shows "getClosestWaypointIndex_loop ws pos (length pre) cd j < length (pre @ ws)
         \<and> (\<forall>w \<in> set (pre @ ws).
               vec_dist pos ((pre @ ws) ! getClosestWaypointIndex_loop ws pos (length pre) cd j)
                 \<le> vec_dist pos w)"
  using assms
proof (induction ws arbitrary: pre cd j)
  case Nil
  then show ?case by (cases cd) auto
next
  case (Cons w ws)
  let ?d = "vec_dist pos w"
  let ?pre = "pre @ [w]"
  show ?case
  proof (cases "case cd of None \<Rightarrow> True | Some c \<Rightarrow> ?d < c")
    case True
    have inv: "case Some ?d of None \<Rightarrow> ?pre = []
           | Some c \<Rightarrow> length pre < length ?pre \<and> c = vec_dist pos (?pre ! length pre)
               \<and> (\<forall>w \<in> set ?pre. c \<le> vec_dist pos w)"
      using True Cons.prems(1) by (cases cd) (auto)
    from Cons.IH [where pre = ?pre and cd = "Some ?d" and j = "length pre", OF inv] True
    show ?thesis by (simp add: Let_def)
  next
    case False
    then obtain c where cd: "cd = Some c" and le: "c \<le> ?d" by (cases cd) auto
    have inv: "case cd of None \<Rightarrow> ?pre = []
           | Some c \<Rightarrow> j < length ?pre \<and> c = vec_dist pos (?pre ! j)
               \<and> (\<forall>w \<in> set ?pre. c \<le> vec_dist pos w)"
      using Cons.prems(1) cd le by (auto simp: nth_append)
    from Cons.IH [where pre = ?pre and cd = cd and j = j, OF inv] False cd
    show ?thesis by (simp add: Let_def)
  qed
qed

lemma getClosestWaypointIndex_nearest:
  assumes "waypoints t \<noteq> []"
  shows "getClosestWaypointIndex t pos < length (waypoints t)"
    and "\<forall>w \<in> set (waypoints t). vec_dist pos (waypoints t ! getClosestWaypointIndex t pos) \<le> vec_dist pos w"
  using closest_loop_inv [where cd = None and pre = "[]" and j = 0 and pos = pos and ws = "waypoints t"] assms
  by (simp_all add: getClosestWaypointIndex_def)

lemma p5_map_boundary: "p5_map x 0 25 (3 / 10) 1 = 3 / 10 + 7 / 10 * x / 25"
  by (simp add: p5_map_def)







section \<open>The boundary force\<close>

text \<open>
  C3 (as amended). On a track with at least one waypoint, whose width is the one
  \<open>getTrackWidth\<close> gives (so that the margin \<open>trackWidth / 2 - 15\<close> is not
  negative), \<open>getTrackBoundaryForce\<close> measures the distance \<open>d\<close> to a nearest
  waypoint. Up to the margin the force is exactly the zero vector. Beyond it the force is
  a positive multiple of the vector from the position to that waypoint, it is not zero, and
  its magnitude is \<open>0.3 + 0.7 * overshoot / 25\<close>: it starts at 0.3 just past the
  margin (not at 0), reaches 1 at 25 units of overshoot, and keeps growing beyond.
\<close>

theorem getTrackBoundaryForce_margin:
  assumes "waypoints t \<noteq> []" and "trackWidth t = getTrackWidth t"
  shows "let c = waypoints t ! getClosestWaypointIndex t pos;
             d = vec_dist pos c;
             m = trackWidth t / 2 - 15
         in (\<forall>w \<in> set (waypoints t). d \<le> vec_dist pos w)
            \<and> (if d \<le> m then getTrackBoundaryForce t pos vel = Inr (0, 0)
               else getTrackBoundaryForce t pos vel
                      = Inr (vec_mult (vec_sub c pos) ((0.3 + 0.7 * (d - m) / 25) / d))
                    \<and> 0 < (0.3 + 0.7 * (d - m) / 25) / d
                    \<and> getTrackBoundaryForce t pos vel \<noteq> Inr (0, 0)
                    \<and> map_sum id vec_mag (getTrackBoundaryForce t pos vel)
                        = Inr (0.3 + 0.7 * (d - m) / 25))"
proof -
  define c where "c = waypoints t ! getClosestWaypointIndex t pos"
  define d where "d = vec_dist pos c"
  define m where "m = trackWidth t / 2 - 15"
  have idx: "getClosestWaypointIndex t pos < length (waypoints t)"
    and near: "\<forall>w \<in> set (waypoints t). d \<le> vec_dist pos w"
    using getClosestWaypointIndex_nearest [OF assms(1), of pos] by (simp_all add: d_def c_def)
  have m0: "0 \<le> m" using assms(2) by (simp add: m_def getTrackWidth_def)
  have dmag: "d = vec_mag (vec_sub c pos)" by (simp add: d_def vec_dist_def)
  have inside: "getTrackBoundaryForce t pos vel = Inr (0, 0)" if "d \<le> m"
    using that idx by (simp add: getTrackBoundaryForce_def Let_def c_def [symmetric] d_def [symmetric] m_def [symmetric])
  have outside: "getTrackBoundaryForce t pos vel
                      = Inr (vec_mult (vec_sub c pos) ((0.3 + 0.7 * (d - m) / 25) / d))
                    \<and> 0 < (0.3 + 0.7 * (d - m) / 25) / d
                    \<and> getTrackBoundaryForce t pos vel \<noteq> Inr (0, 0)
                    \<and> map_sum id vec_mag (getTrackBoundaryForce t pos vel)
                        = Inr (0.3 + 0.7 * (d - m) / 25)" if "\<not> d \<le> m"
  proof -
    from that m0 have dpos: "0 < d" and over: "0 < d - m" by simp_all
    let ?k = "0.3 + 0.7 * (d - m) / 25"
    have "0 \<le> 0.7 * (d - m) / 25" using over by simp
    then have kpos: "0 < ?k" by linarith
    have f: "getTrackBoundaryForce t pos vel = Inr (vec_mult (vec_normalize (vec_sub c pos)) ?k)"
      using that idx
      by (simp add: getTrackBoundaryForce_def Let_def c_def [symmetric] d_def [symmetric]
          m_def [symmetric] p5_map_boundary)
    have n: "vec_mult (vec_normalize (vec_sub c pos)) ?k = vec_mult (vec_sub c pos) (?k / d)"
      using dpos by (simp add: vec_normalize_def Let_def dmag [symmetric] vec_mult_def)
    have nz: "vec_sub c pos \<noteq> (0, 0)"
      using dpos dmag vec_mag_zero_iff [of "vec_sub c pos"] by auto
    have magf: "vec_mag (vec_mult (vec_normalize (vec_sub c pos)) ?k) = ?k"
      using kpos by (simp add: vec_mag_mult vec_mag_normalize [OF nz])
    have fnz: "vec_mult (vec_normalize (vec_sub c pos)) ?k \<noteq> (0, 0)"
      using magf kpos vec_mag_zero_iff [of "vec_mult (vec_normalize (vec_sub c pos)) ?k"] by auto
    show ?thesis using f n kpos dpos magf fnz by simp
  qed
  show ?thesis
    unfolding Let_def c_def [symmetric] d_def [symmetric] m_def [symmetric]
  proof (cases "d \<le> m")
    case True
    show "(\<forall>w \<in> set (waypoints t). d \<le> vec_dist pos w) \<and>
      (if d \<le> m then getTrackBoundaryForce t pos vel = Inr (0, 0)
       else getTrackBoundaryForce t pos vel
              = Inr (vec_mult (vec_sub c pos) ((0.3 + 0.7 * (d - m) / 25) / d))
            \<and> 0 < (0.3 + 0.7 * (d - m) / 25) / d
            \<and> getTrackBoundaryForce t pos vel \<noteq> Inr (0, 0)
            \<and> map_sum id vec_mag (getTrackBoundaryForce t pos vel)
                = Inr (0.3 + 0.7 * (d - m) / 25))"
      by (subst if_P [OF True]) (use near inside [OF True] in blast)
  next
    case False
    show "(\<forall>w \<in> set (waypoints t). d \<le> vec_dist pos w) \<and>
      (if d \<le> m then getTrackBoundaryForce t pos vel = Inr (0, 0)
       else getTrackBoundaryForce t pos vel
              = Inr (vec_mult (vec_sub c pos) ((0.3 + 0.7 * (d - m) / 25) / d))
            \<and> 0 < (0.3 + 0.7 * (d - m) / 25) / d
            \<and> getTrackBoundaryForce t pos vel \<noteq> Inr (0, 0)
            \<and> map_sum id vec_mag (getTrackBoundaryForce t pos vel)
                = Inr (0.3 + 0.7 * (d - m) / 25))"
      by (subst if_not_P [OF False]) (use near outside [OF False] in blast)
  qed
qed

theorem getTrackBoundaryForce_margin_witness:
  "getTrackBoundaryForce track0 (20, 0) (0, 0) = Inr (0, 0)
   \<and> getTrackBoundaryForce track0 (40, 0) (0, 0) = Inr (- (11 / 25), 0)
   \<and> map_sum id vec_mag (getTrackBoundaryForce track0 (40, 0) (0, 0)) = Inr (11 / 25)"
proof -
  have w: "waypoints track0 \<noteq> []" and tw: "trackWidth track0 = getTrackWidth track0"
    by (simp_all add: track0_def getTrackWidth_def)
  have i: "getClosestWaypointIndex track0 (20, 0) = 0" "getClosestWaypointIndex track0 (40, 0) = 0"
    by (simp_all add: track0_def getClosestWaypointIndex_def vec_dist_def vec_sub_def vec_mag_x0)
  have wp: "waypoints track0 ! 0 = (0, 0)" by (simp add: track0_def)
  have tw0: "trackWidth track0 = 100" by (simp add: track0_def)
  show ?thesis
    using getTrackBoundaryForce_margin [OF w tw, of "(20, 0)" "(0, 0)"]
      getTrackBoundaryForce_margin [OF w tw, of "(40, 0)" "(0, 0)"]
    by (simp add: Let_def i wp tw0 vec_dist_def vec_sub_def vec_mag_x0 vec_mult_def)
qed

text \<open>
  The magnitude is not proportional to the overshoot: on a track with margin 35, at
  overshoot 25 it is 1, at overshoot 5 it is 0.44 (a fifth of full authority would be 0.2),
  and half a unit past the margin it is already 0.314.
\<close>

theorem getTrackBoundaryForce_margin_counterexample:
  "map_sum id vec_mag (getTrackBoundaryForce track0 (60, 0) (0, 0)) = Inr 1
   \<and> map_sum id vec_mag (getTrackBoundaryForce track0 (40, 0) (0, 0)) = Inr (11 / 25)
   \<and> map_sum id vec_mag (getTrackBoundaryForce track0 (71 / 2, 0) (0, 0)) = Inr (157 / 500)"
  by (simp add: track0_def getTrackBoundaryForce_def getClosestWaypointIndex_def Let_def
      vec_dist_def vec_sub_def vec_mag_x0 vec_normalize_def vec_mult_def p5_map_def)

section \<open>Track queries on an empty track\<close>

text \<open>
  C7. What the four track queries do on an empty waypoint list or an empty obstacle list:
  the avoidance force is zero, there is no collision, the nearest-waypoint index is 0; but
  \<open>getTrackBoundaryForce\<close> reads waypoint 0 of an empty list and raises instead of
  returning the zero vector.
\<close>

theorem track_queries_on_empty:
  "getTrackBoundaryForce (t\<lparr>waypoints := []\<rparr>) pos vel = Inl TypeError
   \<and> getClosestWaypointIndex (t\<lparr>waypoints := []\<rparr>) pos = 0
   \<and> getObstacleAvoidanceForce (t\<lparr>obstacles := []\<rparr>) pos vel lookAhead = (0, 0)
   \<and> checkObstacleCollision (t\<lparr>obstacles := []\<rparr>) pos = None"
  by (simp add: getTrackBoundaryForce_def getClosestWaypointIndex_def
      getObstacleAvoidanceForce_def checkObstacleCollision_def)



section \<open>The obstacle avoidance force\<close>

lemma vec_add_assoc: "vec_add (vec_add a b) c = vec_add a (vec_add b c)"
  by (simp add: vec_add_def)

lemma vec_add_zero: "vec_add a (0, 0) = a"
  by (simp add: vec_add_def)

lemma getObstacleAvoidanceForce_loop_sum:
  "getObstacleAvoidanceForce_loop obss pos vel lookAhead acc
     = vec_add acc (obstacleAvoidance_spec pos vel obss lookAhead)"
proof (induction obss arbitrary: acc)
  case Nil
  then show ?case by (simp add: obstacleAvoidance_spec_def sum_vecs_def vec_add_zero)
next
  case (Cons obs rest)
  show ?case
  proof (cases "obstacleQualifies pos vel lookAhead obs")
    case True
    then show ?thesis
      using Cons.IH [of "vec_add acc (obstacleDeflection pos lookAhead obs)"]
      by (simp add: obstacleQualifies_def obstacleDeflection_def obstacleAvoidance_spec_def
          sum_vecs_def Let_def vec_add_assoc)
  next
    case False
    then show ?thesis
      using Cons.IH [of acc]
      by (auto simp add: obstacleQualifies_def obstacleAvoidance_spec_def sum_vecs_def Let_def)
  qed
qed

lemma obstacleQualifies_nonzero:
  assumes "obstacleQualifies pos vel lookAhead obs"
  shows "vec_sub (oposition obs) pos \<noteq> (0, 0)"
proof
  assume "vec_sub (oposition obs) pos = (0, 0)"
  then have "vec_dot (vec_normalize vel) (vec_normalize (vec_sub (oposition obs) pos)) = 0"
    by (simp add: vec_normalize_zero vec_dot_def)
  with assms show False by (simp add: obstacleQualifies_def)
qed

lemma p5_map_avoid: "0 < L \<Longrightarrow> p5_map d 0 L (3 / 2) (3 / 10) = 3 / 2 - 6 / 5 * d / L"
  by (simp add: p5_map_def field_simps)

text \<open>
  C8 (as amended). For a positive look-ahead, \<open>getObstacleAvoidanceForce\<close> is the sum,
  over the obstacles closer than \<open>lookAhead + radius\<close> whose direction has a dot
  product above 0.3 with the direction of travel, of one deflection each; the other
  obstacles contribute nothing and the loop never leaves early. A deflection is the unit
  vector perpendicular to the offset, times the signed factor
  \<open>1.5 - 1.2 * distance / lookAhead\<close>: 1.5 at distance 0, 0.3 at distance
  \<open>lookAhead\<close>, and negative beyond \<open>1.25 * lookAhead\<close>.
\<close>

theorem getObstacleAvoidanceForce_sum:
  assumes "0 < lookAhead"
  shows "getObstacleAvoidanceForce t pos vel lookAhead
           = obstacleAvoidance_spec pos vel (obstacles t) lookAhead
         \<and> (\<forall>obs \<in> set (obstacles t). obstacleQualifies pos vel lookAhead obs \<longrightarrow>
               (let toObs = vec_sub (oposition obs) pos;
                    u = vec_normalize (- snd toObs, fst toObs)
                in obstacleDeflection pos lookAhead obs
                     = vec_mult u (1.5 - 1.2 * vec_mag toObs / lookAhead)
                   \<and> vec_mag u = 1 \<and> vec_dot u toObs = 0))"
proof -
  have sum: "getObstacleAvoidanceForce t pos vel lookAhead
           = obstacleAvoidance_spec pos vel (obstacles t) lookAhead"
    by (simp add: getObstacleAvoidanceForce_def getObstacleAvoidanceForce_loop_sum vec_add_def)
  have each: "obstacleDeflection pos lookAhead obs
                = vec_mult (vec_normalize (- snd (vec_sub (oposition obs) pos), fst (vec_sub (oposition obs) pos)))
                    (1.5 - 1.2 * vec_mag (vec_sub (oposition obs) pos) / lookAhead)
              \<and> vec_mag (vec_normalize (- snd (vec_sub (oposition obs) pos), fst (vec_sub (oposition obs) pos))) = 1
              \<and> vec_dot (vec_normalize (- snd (vec_sub (oposition obs) pos), fst (vec_sub (oposition obs) pos)))
                  (vec_sub (oposition obs) pos) = 0"
    if q: "obstacleQualifies pos vel lookAhead obs" for obs
  proof -
    obtain x y where xy: "vec_sub (oposition obs) pos = (x, y)" by (cases "vec_sub (oposition obs) pos")
    from obstacleQualifies_nonzero [OF q] xy have nz: "(- y, x) \<noteq> (0, 0)" by auto
    have d: "obstacleDeflection pos lookAhead obs
               = vec_mult (vec_normalize (- y, x)) (1.5 - 1.2 * vec_mag (x, y) / lookAhead)"
      using assms by (simp add: obstacleDeflection_def Let_def xy p5_map_avoid)
    have perp: "vec_dot (vec_normalize (- y, x)) (x, y) = 0"
      by (simp add: vec_normalize_def Let_def vec_dot_def vec_mult_def)
    show ?thesis using d perp vec_mag_normalize [OF nz] by (simp add: xy)
  qed
  show ?thesis using sum each by (simp add: Let_def)
qed

theorem getObstacleAvoidanceForce_sum_witness:
  "getObstacleAvoidanceForce
     (trackObs [\<lparr>otype = cone, oposition = (30, 0), radius = 12\<rparr>,
                \<lparr>otype = oil, oposition = (- 50, 0), radius = 30\<rparr>,
                \<lparr>otype = barrier, oposition = (60, 0), radius = 25\<rparr>])
     (0, 0) (1, 0) 60 = (0, 6 / 5)"
  using getObstacleAvoidanceForce_sum [of 60
      "trackObs [\<lparr>otype = cone, oposition = (30, 0), radius = 12\<rparr>,
                \<lparr>otype = oil, oposition = (- 50, 0), radius = 30\<rparr>,
                \<lparr>otype = barrier, oposition = (60, 0), radius = 25\<rparr>]" "(0, 0)" "(1, 0)"]
  by (simp add: trackObs_def obstacleAvoidance_spec_def obstacleQualifies_def obstacleDeflection_def
      sum_vecs_def Let_def vec_sub_def vec_mag_x0 vec_mag_0y vec_normalize_def vec_mult_def
      vec_dot_def vec_add_def p5_map_def)

text \<open>
  With look-ahead 60 and a barrier of radius 25 straight ahead: at distance 60 the factor
  is 0.3 and at distance 6 it is 1.38 (the end points are 0 to 1.5 and \<open>lookAhead\<close>
  to 0.3, not the other way round); at distance 80 the force is 0.1 long and points the
  other way, at the smaller distance 76 it is only 0.02 long, so the magnitude does not
  always grow as the obstacle gets closer.
\<close>

theorem getObstacleAvoidanceForce_counterexample:
  "getObstacleAvoidanceForce (trackObs [\<lparr>otype = barrier, oposition = (60, 0), radius = 25\<rparr>])
     (0, 0) (1, 0) 60 = (0, 3 / 10)
   \<and> getObstacleAvoidanceForce (trackObs [\<lparr>otype = barrier, oposition = (6, 0), radius = 25\<rparr>])
     (0, 0) (1, 0) 60 = (0, 69 / 50)
   \<and> getObstacleAvoidanceForce (trackObs [\<lparr>otype = barrier, oposition = (80, 0), radius = 25\<rparr>])
     (0, 0) (1, 0) 60 = (0, - (1 / 10))
   \<and> getObstacleAvoidanceForce (trackObs [\<lparr>otype = barrier, oposition = (76, 0), radius = 25\<rparr>])
     (0, 0) (1, 0) 60 = (0, - (1 / 50))
   \<and> vec_mag (getObstacleAvoidanceForce (trackObs [\<lparr>otype = barrier, oposition = (76, 0), radius = 25\<rparr>])
        (0, 0) (1, 0) 60)
     < vec_mag (getObstacleAvoidanceForce (trackObs [\<lparr>otype = barrier, oposition = (80, 0), radius = 25\<rparr>])
        (0, 0) (1, 0) 60)"
  by (simp add: trackObs_def getObstacleAvoidanceForce_def Let_def vec_sub_def vec_mag_x0 vec_mag_0y
      vec_normalize_def vec_mult_def vec_dot_def vec_add_def p5_map_def)

section \<open>What one player frame leaves alone\<close>

lemma getTrackBoundaryForce_total:
  "waypoints t \<noteq> [] \<Longrightarrow> \<exists>f. getTrackBoundaryForce t pos vel = Inr f"
  using getClosestWaypointIndex_nearest(1) [of t pos]
  by (simp add: getTrackBoundaryForce_def Let_def)

lemma handleInput_frame:
  "track (handleInput k c) = track c \<and> laps (handleInput k c) = laps c
   \<and> lastCheckpoint (handleInput k c) = lastCheckpoint c
   \<and> checkpointsReached (handleInput k c) = checkpointsReached c
   \<and> finished (handleInput k c) = finished c
   \<and> position (handleInput k c) = position c
   \<and> maxspeed (handleInput k c) = maxspeed c
   \<and> nitroMaxspeed (handleInput k c) = nitroMaxspeed c
   \<and> nitroFuel (handleInput k c) = nitroFuel c
   \<and> nitroMaxFuel (handleInput k c) = nitroMaxFuel c
   \<and> nitroDrainRate (handleInput k c) = nitroDrainRate c
   \<and> nitroRechargeRate (handleInput k c) = nitroRechargeRate c"
  by (simp add: handleInput_def Let_def)

lemma handleAutoPilot_frame:
  "\<exists>c'. handleAutoPilot c = Inr c' \<and> track c' = track c \<and> laps c' = laps c
   \<and> lastCheckpoint c' = lastCheckpoint c
   \<and> checkpointsReached c' = checkpointsReached c
   \<and> finished c' = finished c
   \<and> position c' = position c
   \<and> maxspeed c' = maxspeed c
   \<and> nitroMaxspeed c' = nitroMaxspeed c
   \<and> nitroFuel c' = nitroFuel c
   \<and> nitroMaxFuel c' = nitroMaxFuel c
   \<and> nitroDrainRate c' = nitroDrainRate c
   \<and> nitroRechargeRate c' = nitroRechargeRate c"
proof (cases "track c")
  case None
  then show ?thesis by (simp add: handleAutoPilot_def)
next
  case (Some t)
  show ?thesis
  proof (cases "waypoints t = []")
    case True
    with Some show ?thesis by (simp add: handleAutoPilot_def)
  next
    case False
    show ?thesis
      using Some False
      apply (simp add: handleAutoPilot_def Let_def and_then_def split: sum.splits)
      using getTrackBoundaryForce_total [OF False]
      by (metis Inl_Inr_False)
  qed
qed

lemma sameCar_refl: "sameCar c c"
  by (simp add: sameCar_def)

lemma sameCar_trans: "sameCar a b \<Longrightarrow> sameCar b c \<Longrightarrow> sameCar a c"
  by (simp add: sameCar_def)

lemma sameRace_refl: "sameRace c c"
  by (simp add: sameRace_def)

lemma sameRace_trans: "sameRace a b \<Longrightarrow> sameRace b c \<Longrightarrow> sameRace a c"
  by (simp add: sameRace_def)

lemma steer_first:
  "\<exists>c1. (if autoMode c then handleAutoPilot c else Inr (handleInput k c)) = Inr c1
        \<and> sameCar c c1 \<and> sameRace c c1 \<and> position c1 = position c \<and> nitroFuel c1 = nitroFuel c"
proof (cases "autoMode c")
  case True
  then show ?thesis using handleAutoPilot_frame [of c] by (auto simp: sameCar_def sameRace_def)
next
  case False
  then show ?thesis using handleInput_frame [of k c] by (simp add: sameCar_def sameRace_def)
qed

lemma updateNitro_frame:
  "sameCar c (updateNitro c) \<and> sameRace c (updateNitro c)
   \<and> position (updateNitro c) = position c \<and> nitroActive (updateNitro c) = nitroActive c"
  by (simp add: updateNitro_def Let_def sameCar_def sameRace_def)

lemma updateNitro_fuel:
  "nitroFuel (updateNitro c) =
     (if nitroActive c \<and> nitroFuel c > 0 then max 0 (nitroFuel c - nitroDrainRate c)
      else min (nitroMaxFuel c) (nitroFuel c + nitroRechargeRate c))"
  by (simp add: updateNitro_def Let_def)

lemma updateNitro_range:
  assumes "0 \<le> nitroFuel c" "nitroFuel c \<le> nitroMaxFuel c"
    "0 \<le> nitroDrainRate c" "0 \<le> nitroRechargeRate c"
  shows "0 \<le> nitroFuel (updateNitro c) \<and> nitroFuel (updateNitro c) \<le> nitroMaxFuel c"
  using assms by (auto simp: updateNitro_fuel)

lemma PlayerCar_update_integrate_frame:
  "\<exists>c1 c6. (if autoMode c then handleAutoPilot c else Inr (handleInput k c)) = Inr c1
     \<and> PlayerCar_update_integrate k c = Inr c6
     \<and> sameCar c c6 \<and> sameRace c c6
     \<and> nitroFuel c1 = nitroFuel c \<and> sameCar c c1
     \<and> nitroFuel c6 = nitroFuel (updateNitro c1)
     \<and> nitroActive c6 = nitroActive c1
     \<and> (0 \<le> maxspeed c \<and> 0 \<le> nitroMaxspeed c \<longrightarrow>
          vec_mag (velocity c6) \<le> (if nitroActive c6 then nitroMaxspeed c6 else maxspeed c6))
     \<and> position c6 = vec_add (position c) (velocity c6)"
proof -
  obtain c1 where c1: "(if autoMode c then handleAutoPilot c else Inr (handleInput k c)) = Inr c1"
    and s1: "sameCar c c1" "sameRace c c1" "position c1 = position c" "nitroFuel c1 = nitroFuel c"
    using steer_first [of c k] by blast
  have n: "sameCar c1 (updateNitro c1)" "sameRace c1 (updateNitro c1)"
    "position (updateNitro c1) = position c1" "nitroActive (updateNitro c1) = nitroActive c1"
    using updateNitro_frame [of c1] by simp_all
  show ?thesis
    unfolding PlayerCar_update_integrate_def c1
    using s1 n
    by (simp add: and_then_def Let_def sameCar_def sameRace_def vec_mag_limit)
qed

lemma handleBoundary_frame:
  assumes "hasWaypoints c"
  shows "\<exists>c'. handleBoundary c = Inr c' \<and> sameCar c c' \<and> sameRace c c'
           \<and> position c' = position c \<and> nitroFuel c' = nitroFuel c
           \<and> nitroActive c' = nitroActive c \<and> waypointReachDistance c' = waypointReachDistance c"
proof (cases "track c")
  case None
  then show ?thesis by (simp add: handleBoundary_def sameCar_def sameRace_def)
next
  case (Some t)
  with assms have "waypoints t \<noteq> []" by (simp add: hasWaypoints_def)
  then obtain f where "getTrackBoundaryForce t (position c) (velocity c) = Inr f"
    using getTrackBoundaryForce_total by blast
  with Some show ?thesis
    by (simp add: handleBoundary_def and_then_def sameCar_def sameRace_def)
qed

lemma handleObstacles_frame:
  "sameCar c (handleObstacles c) \<and> sameRace c (handleObstacles c)
   \<and> position (handleObstacles c) = position c \<and> nitroFuel (handleObstacles c) = nitroFuel c
   \<and> nitroActive (handleObstacles c) = nitroActive c
   \<and> waypointReachDistance (handleObstacles c) = waypointReachDistance c"
  by (simp add: handleObstacles_def Let_def sameCar_def sameRace_def
      split: option.splits obstacleType.splits)

lemma checkWaypoints_frame:
  assumes "hasWaypoints c"
  shows "\<exists>c'. checkWaypoints c = Inr c' \<and> sameCar c c'
           \<and> position c' = position c \<and> velocity c' = velocity c
           \<and> nitroFuel c' = nitroFuel c \<and> nitroActive c' = nitroActive c"
  using assms
  by (auto simp: checkWaypoints_def Let_def sameCar_def hasWaypoints_def split: option.splits)

lemma edges_frame:
  "sameCar c (edges c) \<and> sameRace c (edges c) \<and> nitroFuel (edges c) = nitroFuel c
   \<and> nitroActive (edges c) = nitroActive c"
  by (simp add: edges_def Let_def sameCar_def sameRace_def)

lemma hasWaypoints_sameCar: "sameCar c c' \<Longrightarrow> hasWaypoints c \<Longrightarrow> hasWaypoints c'"
  by (simp add: sameCar_def hasWaypoints_def)

lemma PlayerCar_update_nitro:
  assumes "hasWaypoints c" "\<not> finished c"
  shows "\<exists>c1 c'. PlayerCar_update k c = Inr c' \<and> sameCar c c' \<and> sameCar c c1
           \<and> nitroFuel c1 = nitroFuel c \<and> nitroFuel c' = nitroFuel (updateNitro c1)"
proof -
  obtain c1 c6 where i: "PlayerCar_update_integrate k c = Inr c6"
    and c1: "sameCar c c1" "nitroFuel c1 = nitroFuel c"
    and c6: "sameCar c c6" "nitroFuel c6 = nitroFuel (updateNitro c1)"
    using PlayerCar_update_integrate_frame [of c k] by blast
  have w6: "hasWaypoints c6" using hasWaypoints_sameCar [OF c6(1) assms(1)] .
  obtain c7 where b: "handleBoundary c6 = Inr c7" and c7: "sameCar c6 c7" "nitroFuel c7 = nitroFuel c6"
    using handleBoundary_frame [OF w6] by blast
  have o: "sameCar c7 (handleObstacles c7)" "nitroFuel (handleObstacles c7) = nitroFuel c7"
    using handleObstacles_frame [of c7] by simp_all
  have w7: "hasWaypoints (handleObstacles c7)"
    using hasWaypoints_sameCar [OF o(1) hasWaypoints_sameCar [OF c7(1) w6]] .
  obtain c8 where w: "checkWaypoints (handleObstacles c7) = Inr c8"
    and c8: "sameCar (handleObstacles c7) c8" "nitroFuel c8 = nitroFuel (handleObstacles c7)"
    using checkWaypoints_frame [OF w7] by blast
  have e: "sameCar c8 (edges c8)" "nitroFuel (edges c8) = nitroFuel c8"
    using edges_frame [of c8] by simp_all
  have u: "PlayerCar_update k c = Inr (edges c8)"
    using assms(2) i b w by (simp add: PlayerCar_update_def and_then_def)
  have sc: "sameCar c (edges c8)"
    using c6(1) c7(1) o(1) c8(1) e(1) sameCar_trans by blast
  show ?thesis using u sc c1 c6(2) c7(2) o(2) c8(2) e(2) by auto
qed

lemma PlayerCar_update_range:
  assumes "hasWaypoints c" "0 \<le> nitroFuel c" "nitroFuel c \<le> nitroMaxFuel c"
    "0 \<le> nitroDrainRate c" "0 \<le> nitroRechargeRate c"
  shows "\<exists>c'. PlayerCar_update k c = Inr c' \<and> sameCar c c'
           \<and> 0 \<le> nitroFuel c' \<and> nitroFuel c' \<le> nitroMaxFuel c'"
proof (cases "finished c")
  case True
  then show ?thesis using assms by (simp add: PlayerCar_update_def sameCar_refl)
next
  case False
  obtain c1 c' where u: "PlayerCar_update k c = Inr c'" and s: "sameCar c c'" "sameCar c c1"
    and f: "nitroFuel c1 = nitroFuel c" "nitroFuel c' = nitroFuel (updateNitro c1)"
    using PlayerCar_update_nitro [OF assms(1) False] by blast
  have "0 \<le> nitroFuel (updateNitro c1) \<and> nitroFuel (updateNitro c1) \<le> nitroMaxFuel c1"
    using updateNitro_range [of c1] assms s(2) f(1) by (simp add: sameCar_def)
  then show ?thesis using u s f by (auto simp: sameCar_def)
qed

lemma PlayerCar_steps_range:
  assumes "hasWaypoints c" "0 \<le> nitroFuel c" "nitroFuel c \<le> nitroMaxFuel c"
    "0 \<le> nitroDrainRate c" "0 \<le> nitroRechargeRate c"
  shows "\<exists>c'. PlayerCar_steps ks c = Inr c' \<and> sameCar c c'
           \<and> 0 \<le> nitroFuel c' \<and> nitroFuel c' \<le> nitroMaxFuel c'"
  using assms
proof (induction ks arbitrary: c)
  case Nil
  then show ?case by (simp add: sameCar_refl)
next
  case (Cons k ks)
  obtain c1 where u: "PlayerCar_update k c = Inr c1" and s: "sameCar c c1"
    and r: "0 \<le> nitroFuel c1" "nitroFuel c1 \<le> nitroMaxFuel c1"
    using PlayerCar_update_range [OF Cons.prems] by blast
  have w: "hasWaypoints c1" using hasWaypoints_sameCar [OF s Cons.prems(1)] .
  have d: "0 \<le> nitroDrainRate c1" "0 \<le> nitroRechargeRate c1"
    using s Cons.prems by (simp_all add: sameCar_def)
  obtain c' where "PlayerCar_steps ks c1 = Inr c'" "sameCar c1 c'"
    "0 \<le> nitroFuel c'" "nitroFuel c' \<le> nitroMaxFuel c'"
    using Cons.IH [OF w r d] by blast
  then show ?case using u s sameCar_trans by (auto simp: and_then_def)
qed

lemma handleInput_nitro:
  "\<not> finished c \<Longrightarrow> nitroActive (handleInput k c) = ((k SHIFT \<or> k 78) \<and> nitroFuel c > 0)"
  by (simp add: handleInput_def Let_def)

lemma PlayerCar_update_manual_nitroActive:
  assumes "hasWaypoints c" "\<not> finished c" "\<not> autoMode c"
  shows "\<exists>c'. PlayerCar_update k c = Inr c' \<and> nitroActive c' = nitroActive (handleInput k c)"
proof -
  obtain c1 c6 where c1: "(if autoMode c then handleAutoPilot c else Inr (handleInput k c)) = Inr c1"
    and i: "PlayerCar_update_integrate k c = Inr c6"
    and c6: "sameCar c c6" "nitroActive c6 = nitroActive c1"
    using PlayerCar_update_integrate_frame [of c k] by blast
  from c1 assms(3) have c1': "c1 = handleInput k c" by simp
  have w6: "hasWaypoints c6" using hasWaypoints_sameCar [OF c6(1) assms(1)] .
  obtain c7 where b: "handleBoundary c6 = Inr c7" and c7: "sameCar c6 c7" "nitroActive c7 = nitroActive c6"
    using handleBoundary_frame [OF w6] by blast
  have o: "sameCar c7 (handleObstacles c7)" "nitroActive (handleObstacles c7) = nitroActive c7"
    using handleObstacles_frame [of c7] by simp_all
  have w7: "hasWaypoints (handleObstacles c7)"
    using hasWaypoints_sameCar [OF o(1) hasWaypoints_sameCar [OF c7(1) w6]] .
  obtain c8 where w: "checkWaypoints (handleObstacles c7) = Inr c8"
    and c8: "nitroActive c8 = nitroActive (handleObstacles c7)"
    using checkWaypoints_frame [OF w7] by blast
  have e: "nitroActive (edges c8) = nitroActive c8"
    using edges_frame [of c8] by simp
  have u: "PlayerCar_update k c = Inr (edges c8)"
    using assms(2) i b w by (simp add: PlayerCar_update_def and_then_def)
  show ?thesis using u c1' c6(2) c7(2) o(2) c8 e by simp
qed

section \<open>Nitro\<close>

text \<open>
  C5. Take a player whose track, if it has one, has waypoints (so that no frame raises),
  whose fuel lies in \<open>[0, nitroMaxFuel]\<close> and whose drain and recharge rates are not
  negative, as the constructor sets them. Then every run of frames, whatever the keys,
  completes with the fuel still in \<open>[0, nitroMaxFuel]\<close>. In one frame the fuel
  either drains by \<open>nitroDrainRate\<close>, not below 0 (when nitro is on and fuel is
  left), or recharges by \<open>nitroRechargeRate\<close>, not above \<open>nitroMaxFuel\<close>.
  A car that has not finished and has no fuel comes out of \<open>handleInput\<close> with
  nitro off, whatever the keys; in manual mode it is still off at the end of the frame.
  (A finished car does not read its input at all.)
\<close>

theorem nitroFuel_range:
  assumes "hasWaypoints c" "0 \<le> nitroFuel c" "nitroFuel c \<le> nitroMaxFuel c"
    "0 \<le> nitroDrainRate c" "0 \<le> nitroRechargeRate c"
  shows "(\<exists>c'. PlayerCar_steps ks c = Inr c' \<and> 0 \<le> nitroFuel c' \<and> nitroFuel c' \<le> nitroMaxFuel c'
               \<and> nitroMaxFuel c' = nitroMaxFuel c)
         \<and> nitroFuel (updateNitro c)
             = (if nitroActive c \<and> nitroFuel c > 0 then max 0 (nitroFuel c - nitroDrainRate c)
                else min (nitroMaxFuel c) (nitroFuel c + nitroRechargeRate c))
         \<and> (finished c \<or>
              (\<exists>c'. PlayerCar_update k c = Inr c'
                 \<and> (nitroFuel c' = max 0 (nitroFuel c - nitroDrainRate c)
                      \<or> nitroFuel c' = min (nitroMaxFuel c) (nitroFuel c + nitroRechargeRate c))))
         \<and> (\<not> finished c \<and> nitroFuel c = 0 \<longrightarrow> \<not> nitroActive (handleInput k c))
         \<and> (\<not> finished c \<and> \<not> autoMode c \<and> nitroFuel c = 0 \<longrightarrow>
              (\<exists>c'. PlayerCar_update k c = Inr c' \<and> \<not> nitroActive c'))"
proof -
  have seq: "\<exists>c'. PlayerCar_steps ks c = Inr c' \<and> 0 \<le> nitroFuel c' \<and> nitroFuel c' \<le> nitroMaxFuel c'
               \<and> nitroMaxFuel c' = nitroMaxFuel c"
    using PlayerCar_steps_range [OF assms, of ks] by (auto simp: sameCar_def)
  have one: "\<exists>c'. PlayerCar_update k c = Inr c'
                 \<and> (nitroFuel c' = max 0 (nitroFuel c - nitroDrainRate c)
                      \<or> nitroFuel c' = min (nitroMaxFuel c) (nitroFuel c + nitroRechargeRate c))"
    if nf: "\<not> finished c"
  proof -
    obtain c1 c' where u: "PlayerCar_update k c = Inr c'" and s: "sameCar c c1"
      and f: "nitroFuel c1 = nitroFuel c" "nitroFuel c' = nitroFuel (updateNitro c1)"
      using PlayerCar_update_nitro [OF assms(1) nf] by blast
    show ?thesis using u s f by (auto simp: updateNitro_fuel sameCar_def)
  qed
  have inp: "\<not> nitroActive (handleInput k c)" if "\<not> finished c" "nitroFuel c = 0"
    using that by (simp add: handleInput_nitro)
  have upd: "\<exists>c'. PlayerCar_update k c = Inr c' \<and> \<not> nitroActive c'"
    if "\<not> finished c" "\<not> autoMode c" "nitroFuel c = 0"
    using PlayerCar_update_manual_nitroActive [OF assms(1) that(1,2), of k] inp [OF that(1,3)]
    by auto
  show ?thesis using seq one inp upd updateNitro_fuel [of c] by blast
qed

theorem nitroFuel_range_witness:
  "(\<exists>c'. PlayerCar_steps [shiftKey, noKeys, shiftKey] (PlayerCar_new 0 0 (Some track0)) = Inr c'
          \<and> 0 \<le> nitroFuel c' \<and> nitroFuel c' \<le> nitroMaxFuel c' \<and> nitroMaxFuel c' = 100)
   \<and> nitroFuel (updateNitro ((PlayerCar_new 0 0 (Some track0))\<lparr>nitroActive := True, nitroFuel := 1\<rparr>)) = 0
   \<and> nitroFuel (updateNitro ((PlayerCar_new 0 0 (Some track0))\<lparr>nitroFuel := 99.9\<rparr>)) = 100
   \<and> \<not> nitroActive (handleInput shiftKey ((PlayerCar_new 0 0 (Some track0))\<lparr>nitroFuel := 0\<rparr>))
   \<and> (\<exists>c'. PlayerCar_update shiftKey ((PlayerCar_new 0 0 (Some track0))\<lparr>nitroFuel := 0\<rparr>) = Inr c'
          \<and> \<not> nitroActive c')"
proof -
  let ?p = "PlayerCar_new 0 0 (Some track0)"
  have h: "hasWaypoints ?p" "0 \<le> nitroFuel ?p" "nitroFuel ?p \<le> nitroMaxFuel ?p"
    "0 \<le> nitroDrainRate ?p" "0 \<le> nitroRechargeRate ?p"
    by (simp_all add: PlayerCar_new_def hasWaypoints_def track0_def)
  let ?q = "?p\<lparr>nitroFuel := 0\<rparr>"
  have hq: "hasWaypoints ?q" "0 \<le> nitroFuel ?q" "nitroFuel ?q \<le> nitroMaxFuel ?q"
    "0 \<le> nitroDrainRate ?q" "0 \<le> nitroRechargeRate ?q"
    by (simp_all add: PlayerCar_new_def hasWaypoints_def track0_def)
  have a: "\<exists>c'. PlayerCar_steps [shiftKey, noKeys, shiftKey] ?p = Inr c'
          \<and> 0 \<le> nitroFuel c' \<and> nitroFuel c' \<le> nitroMaxFuel c' \<and> nitroMaxFuel c' = 100"
    using nitroFuel_range [OF h, of "[shiftKey, noKeys, shiftKey]" noKeys]
    by (simp add: PlayerCar_new_def)
  have b: "\<not> nitroActive (handleInput shiftKey ?q)"
    "\<exists>c'. PlayerCar_update shiftKey ?q = Inr c' \<and> \<not> nitroActive c'"
    using nitroFuel_range [OF hq, of "[]" shiftKey]
    by (simp_all add: PlayerCar_new_def)
  have c: "nitroFuel (updateNitro (?p\<lparr>nitroActive := True, nitroFuel := 1\<rparr>)) = 0"
    "nitroFuel (updateNitro (?p\<lparr>nitroFuel := 99.9\<rparr>)) = 100"
    by (simp_all add: updateNitro_def Let_def PlayerCar_new_def)
  show ?thesis using a b c by blast
qed

section \<open>The speed cap\<close>

lemma vec_mag_mono:
  assumes "\<bar>a\<bar> \<le> \<bar>c\<bar>" "\<bar>b\<bar> \<le> \<bar>d\<bar>"
  shows "vec_mag (a, b) \<le> vec_mag (c, d)"
proof -
  have "a * a \<le> c * c" "b * b \<le> d * d"
    using assms by (simp_all add: abs_le_square_iff power2_eq_square)
  then show ?thesis by (simp add: vec_mag_def vec_magSq_def add_mono)
qed

lemma edges_speed: "vec_mag (velocity (edges v)) \<le> vec_mag (velocity v)"
proof -
  obtain x y where v: "velocity v = (x, y)" by (cases "velocity v")
  have "\<exists>x' y'. velocity (edges v) = (x', y') \<and> \<bar>x'\<bar> \<le> \<bar>x\<bar> \<and> \<bar>y'\<bar> \<le> \<bar>y\<bar>"
    by (simp add: edges_def Let_def v)
  then show ?thesis using vec_mag_mono v by auto
qed

lemma edges_maxspeed: "maxspeed (edges v) = maxspeed v"
  by (simp add: edges_def Let_def)

lemma Vehicule_update_speed:
  "0 \<le> maxspeed v \<Longrightarrow> vec_mag (velocity (Vehicule_update v)) \<le> maxspeed v"
  by (simp add: Vehicule_update_def Let_def vec_mag_limit)

lemma Vehicule_update_position:
  "position (Vehicule_update v) = vec_add (position v) (velocity (Vehicule_update v))
   \<and> maxspeed (Vehicule_update v) = maxspeed v"
  by (simp add: Vehicule_update_def Let_def)

lemma playerFast_fields:
  "velocity playerFast = (6, 0)" "position playerFast = (650, 350)" "angle playerFast = 0"
  "friction playerFast = 97 / 100" "drift_factor playerFast = 9 / 10"
  "nitroActive playerFast = False" "maxspeed playerFast = 6" "nitroMaxspeed playerFast = 10"
  "autoMode playerFast = False" "finished playerFast = False" "track playerFast = Some trackC"
  "nitroFuel playerFast = 100" "nitroMaxFuel playerFast = 100" "nitroRechargeRate playerFast = 3 / 10"
  "r playerFast = 12" "lastCheckpoint playerFast = 0" "waypointReachDistance playerFast = 65"
  "oilTimer playerFast = 0" "slowdownTimer playerFast = 0"
  by (simp_all add: playerFast_def PlayerCar_new_def trackC_def vec_heading_def atan2_def vec_sub_def)

lemma playerFast_same:
  "playerFast\<lparr>nitroActive := False\<rparr> = playerFast" "playerFast\<lparr>nitroFuel := 100\<rparr> = playerFast"
  by (simp_all add: playerFast_def PlayerCar_new_def)

text \<open>
  C1 (as amended). In every step the velocity that is added to the position has magnitude
  at most the cap. For \<open>Vehicule.update\<close> with a non-negative \<open>maxspeed\<close>: the new
  velocity is within \<open>maxspeed\<close> and the new position is the old one plus that
  velocity. For an opponent that has not finished, the bound still holds at the end of
  \<open>FollowerCar.update\<close>, after the screen edges have been handled. For the player,
  the first part of \<open>update\<close>, up to the integration, always completes; the velocity it
  leaves is within \<open>nitroMaxspeed\<close> when nitro is on and within \<open>maxspeed\<close>
  otherwise, and the position has advanced by exactly that velocity; the rest of
  \<open>update\<close> (boundary, obstacles, checkpoints, edges) runs after that.
\<close>

theorem speed_cap_at_integration:
  assumes "0 \<le> maxspeed v" and "0 \<le> maxspeed a" and "0 \<le> maxspeed c" and "0 \<le> nitroMaxspeed c"
  shows "vec_mag (velocity (Vehicule_update v)) \<le> maxspeed v
         \<and> position (Vehicule_update v) = vec_add (position v) (velocity (Vehicule_update v))
         \<and> (finished a \<or> vec_mag (velocity (FollowerCar_update a)) \<le> maxspeed a)
         \<and> maxspeed (FollowerCar_update a) = maxspeed a
         \<and> (\<exists>c6. PlayerCar_update_integrate k c = Inr c6
               \<and> vec_mag (velocity c6) \<le> (if nitroActive c6 then nitroMaxspeed c6 else maxspeed c6)
               \<and> nitroMaxspeed c6 = nitroMaxspeed c \<and> maxspeed c6 = maxspeed c
               \<and> position c6 = vec_add (position c) (velocity c6)
               \<and> PlayerCar_update k c
                   = (if finished c then Inr c
                      else and_then (handleBoundary c6)
                             (\<lambda>c7. and_then (checkWaypoints (handleObstacles c7))
                                (\<lambda>c8. Inr (edges c8)))))"
proof -
  have f: "vec_mag (velocity (FollowerCar_update a)) \<le> maxspeed a" if "\<not> finished a"
  proof -
    have "vec_mag (velocity (edges (Vehicule_update a))) \<le> vec_mag (velocity (Vehicule_update a))"
      by (rule edges_speed)
    also have "\<dots> \<le> maxspeed a" using assms(2) by (rule Vehicule_update_speed)
    finally show ?thesis using that by (simp add: FollowerCar_update_def)
  qed
  have fm: "maxspeed (FollowerCar_update a) = maxspeed a"
    by (simp add: FollowerCar_update_def edges_maxspeed Vehicule_update_position)
  obtain c6 where i: "PlayerCar_update_integrate k c = Inr c6" and s: "sameCar c c6"
    and b: "vec_mag (velocity c6) \<le> (if nitroActive c6 then nitroMaxspeed c6 else maxspeed c6)"
    and p: "position c6 = vec_add (position c) (velocity c6)"
    using PlayerCar_update_integrate_frame [of c k] assms(3,4) by blast
  have u: "PlayerCar_update k c
             = (if finished c then Inr c
                else and_then (handleBoundary c6)
                       (\<lambda>c7. and_then (checkWaypoints (handleObstacles c7)) (\<lambda>c8. Inr (edges c8))))"
    using i by (simp add: PlayerCar_update_def and_then_def)
  have m: "nitroMaxspeed c6 = nitroMaxspeed c" "maxspeed c6 = maxspeed c"
    using s by (simp_all add: sameCar_def)
  show ?thesis
    using Vehicule_update_speed [OF assms(1)] Vehicule_update_position [of v] f fm i b p u m
    by blast
qed

theorem speed_cap_at_integration_witness:
  "vec_mag (velocity (Vehicule_update ((FollowerCar_new 100 100 None)\<lparr>acceleration := (0, 9)\<rparr>))) \<le> 4
   \<and> vec_mag (velocity (FollowerCar_update ((FollowerCar_new 100 100 None)\<lparr>acceleration := (0, 9)\<rparr>))) \<le> 4
   \<and> (\<exists>c6. PlayerCar_update_integrate noKeys playerFast = Inr c6
          \<and> vec_mag (velocity c6) \<le> (if nitroActive c6 then 10 else 6)
          \<and> position c6 = vec_add (650, 350) (velocity c6))"
proof -
  let ?a = "(FollowerCar_new 100 100 None)\<lparr>acceleration := (0, 9)\<rparr>"
  have h: "0 \<le> maxspeed ?a" "0 \<le> maxspeed playerFast" "0 \<le> nitroMaxspeed playerFast"
    by (simp_all add: FollowerCar_new_def playerFast_fields)
  have a: "maxspeed ?a = 4" "\<not> finished ?a" by (simp_all add: FollowerCar_new_def)
  note t = speed_cap_at_integration [OF h(1) h(1) h(2) h(3), of noKeys]
  from t have v: "vec_mag (velocity (Vehicule_update ?a)) \<le> 4"
    and f: "vec_mag (velocity (FollowerCar_update ?a)) \<le> 4"
    by (simp_all add: a)
  from t obtain c6 where c6: "PlayerCar_update_integrate noKeys playerFast = Inr c6"
    "vec_mag (velocity c6) \<le> (if nitroActive c6 then nitroMaxspeed c6 else maxspeed c6)"
    "nitroMaxspeed c6 = nitroMaxspeed playerFast" "maxspeed c6 = maxspeed playerFast"
    "position c6 = vec_add (position playerFast) (velocity c6)"
    by blast
  have "vec_mag (velocity c6) \<le> (if nitroActive c6 then 10 else 6)"
    using c6(2,3,4) by (cases "nitroActive c6") (simp_all add: playerFast_fields)
  moreover have "position c6 = vec_add (650, 350) (velocity c6)"
    using c6(5) by (simp add: playerFast_fields)
  ultimately show ?thesis using v f c6(1) by blast
qed

text \<open>
  At the end of \<open>PlayerCar.update\<close> the velocity can exceed the cap. A player 44.18
  units from the nearest waypoint after the move (margin 35), driving toward it at 5.82
  with nitro off: \<open>handleBoundary\<close> scales the velocity by 0.85 and adds twice the
  boundary force, which leaves 6.06108, above \<open>maxspeed = 6\<close>.
\<close>

theorem speed_cap_counterexample:
  "PlayerCar_update noKeys playerFast
     = Inr (playerFast\<lparr>position := (32791 / 50, 350), velocity := (151527 / 25000, 0)\<rparr>)
   \<and> \<not> nitroActive (playerFast\<lparr>position := (32791 / 50, 350), velocity := (151527 / 25000, 0)\<rparr>)
   \<and> maxspeed (playerFast\<lparr>position := (32791 / 50, 350), velocity := (151527 / 25000, 0)\<rparr>) = 6
   \<and> vec_mag (velocity (playerFast\<lparr>position := (32791 / 50, 350), velocity := (151527 / 25000, 0)\<rparr>))
       = 151527 / 25000"
proof -
  have h1: "handleInput noKeys playerFast = playerFast"
    by (simp add: handleInput_def Let_def noKeys_def playerFast_fields playerFast_same)
  have h2: "updateNitro playerFast = playerFast"
    by (simp add: updateNitro_def Let_def playerFast_fields playerFast_same)
  have i: "PlayerCar_update_integrate noKeys playerFast
             = Inr (playerFast\<lparr>position := (32791 / 50, 350), velocity := (291 / 50, 0)\<rparr>)"
    by (simp add: PlayerCar_update_integrate_def playerFast_fields h1 h2 and_then_def Let_def
        vec_add_def vec_mult_def vec_fromAngle_def vec_dot_def vec_lerp_def
        vec_limit_def vec_magSq_def)
  let ?p1 = "playerFast\<lparr>position := (32791 / 50, 350), velocity := (291 / 50, 0)\<rparr>"
  let ?p2 = "playerFast\<lparr>position := (32791 / 50, 350), velocity := (151527 / 25000, 0)\<rparr>"
  have f: "getTrackBoundaryForce trackC (32791 / 50, 350) (291 / 50, 0) = Inr (6963 / 12500, 0)"
    by (simp add: trackC_def getTrackBoundaryForce_def getClosestWaypointIndex_def Let_def
        vec_dist_def vec_sub_def vec_mag_x0 vec_normalize_def vec_mult_def p5_map_def)
  have b: "handleBoundary ?p1 = Inr ?p2"
    by (simp add: handleBoundary_def playerFast_fields f and_then_def
        vec_mag_x0 vec_add_def vec_mult_def)
  have o: "handleObstacles ?p2 = ?p2"
    by (simp add: handleObstacles_def playerFast_fields Let_def checkObstacleCollision_def trackC_def)
  have w: "checkWaypoints ?p2 = Inr ?p2"
    by (simp add: checkWaypoints_def playerFast_fields Let_def trackC_def
        vec_dist_def vec_sub_def vec_mag_x0)
  have e: "edges ?p2 = ?p2"
    by (simp add: edges_def Let_def width_def height_def playerFast_fields)
  have u: "PlayerCar_update noKeys playerFast = Inr ?p2"
    by (simp add: PlayerCar_update_def playerFast_fields i b o w e and_then_def)
  show ?thesis using u by (simp add: playerFast_fields vec_mag_x0)
qed

section \<open>Checkpoints and laps\<close>

lemma eighty_percent: "(real n * 4 \<le> real (Suc m) * 5) = (4 * n \<le> 5 + 5 * m)"
proof -
  have "real n * 4 = real (4 * n)" "real (Suc m) * 5 = real (5 + 5 * m)"
    by simp_all
  then show ?thesis by (simp only: of_nat_le_iff)
qed

lemma eighty_percent': "(real n * 4 \<le> 5 + real m * 5) = (4 * n \<le> 5 + 5 * m)"
  using eighty_percent [of n m] by (simp add: algebra_simps)

lemma checkWaypoints_rule:
  assumes "track c = Some t" "waypoints t \<noteq> []"
  shows "\<exists>c'. checkWaypoints c = Inr c'
     \<and> (if vec_dist (position c) (waypoints t ! ((lastCheckpoint c + 1) mod length (waypoints t)))
            < waypointReachDistance c
         then lastCheckpoint c' = (lastCheckpoint c + 1) mod length (waypoints t)
              \<and> (if (lastCheckpoint c + 1) mod length (waypoints t) = 0
                     \<and> 4 * length (waypoints t) \<le> 5 * (checkpointsReached c + 1)
                  then laps c' = laps c + 1 \<and> checkpointsReached c' = 0
                  else laps c' = laps c \<and> checkpointsReached c' = checkpointsReached c + 1)
         else c' = c)"
  using assms
  by (simp add: checkWaypoints_def Let_def eighty_percent)

lemma followPath_rule:
  assumes "track a = Some t" "currentWaypointIndex a < length (waypoints t)"
  shows "\<exists>a' f. followPath a = Inr (a', f)
     \<and> f = seek a' (waypoints t ! currentWaypointIndex a')
     \<and> currentWaypointIndex a' < length (waypoints t)
     \<and> track a' = Some t \<and> finished a' = finished a \<and> position a' = position a
     \<and> (if vec_dist (position a) (waypoints t ! currentWaypointIndex a) < waypointReachDistance a
         then currentWaypointIndex a' = (currentWaypointIndex a + 1) mod length (waypoints t)
              \<and> lastCheckpoint a' = currentWaypointIndex a'
              \<and> (if (currentWaypointIndex a + 1) mod length (waypoints t) = 0
                     \<and> 4 * length (waypoints t) \<le> 5 * (checkpointsReached a + 1)
                  then laps a' = laps a + 1 \<and> checkpointsReached a' = 0
                  else laps a' = laps a \<and> checkpointsReached a' = checkpointsReached a + 1)
         else a' = a)"
proof -
  have "waypoints t \<noteq> []" "0 < length (waypoints t)" using assms(2) by auto
  then show ?thesis
    using assms by (simp add: followPath_def Let_def eighty_percent eighty_percent')
qed

lemma track80_facts:
  "length (waypoints track80) = 80" "waypoints track80 ! 0 = (0, 0)"
  "waypoints track80 ! 79 = (790, 0)" "waypoints track80 \<noteq> []"
  by (auto simp add: track80_def)

lemma player79_fields:
  "track (player79 n) = Some track80" "lastCheckpoint (player79 n) = 79"
  "checkpointsReached (player79 n) = n" "laps (player79 n) = 0"
  "position (player79 n) = (0, 0)" "waypointReachDistance (player79 n) = 65"
  by (simp_all add: player79_def PlayerCar_new_def)

lemma follower79_fields:
  "track (follower79 n) = Some track80" "lastCheckpoint (follower79 n) = 79"
  "currentWaypointIndex (follower79 n) = 79"
  "checkpointsReached (follower79 n) = n" "laps (follower79 n) = 0"
  "position (follower79 n) = (790, 0)" "waypointReachDistance (follower79 n) = 55"
  by (simp_all add: follower79_def FollowerCar_new_def)

text \<open>
  The lap rule of both methods, in terms of the indices. For the player
  (\<open>checkWaypoints\<close>) and for an opponent (\<open>followPath\<close>), on a track with
  waypoints: the lap counter goes up by one exactly when the racer reaches the waypoint it
  is after, the index stored next thereby becomes 0, and the checkpoints counted since
  the last reset, the one just reached included, are at least 0.8 times the number of
  waypoints (\<open>4 * n \<le> 5 * count\<close>); the counter of checkpoints is then reset to 0. In
  every other case the lap counter stays, and the counter of checkpoints grows by one if a
  waypoint was reached.
\<close>

theorem lap_completion_rule:
  assumes "track c = Some t" and "track a = Some t"
    and "currentWaypointIndex a < length (waypoints t)"
  shows "(\<exists>c'. checkWaypoints c = Inr c'
            \<and> laps c' = (if vec_dist (position c)
                               (waypoints t ! ((lastCheckpoint c + 1) mod length (waypoints t)))
                               < waypointReachDistance c
                             \<and> (lastCheckpoint c + 1) mod length (waypoints t) = 0
                             \<and> 4 * length (waypoints t) \<le> 5 * (checkpointsReached c + 1)
                          then laps c + 1 else laps c)
            \<and> checkpointsReached c'
                 = (if vec_dist (position c)
                         (waypoints t ! ((lastCheckpoint c + 1) mod length (waypoints t)))
                         < waypointReachDistance c
                    then (if (lastCheckpoint c + 1) mod length (waypoints t) = 0
                             \<and> 4 * length (waypoints t) \<le> 5 * (checkpointsReached c + 1)
                          then 0 else checkpointsReached c + 1)
                    else checkpointsReached c))
       \<and> (\<exists>a' f. followPath a = Inr (a', f)
            \<and> laps a' = (if vec_dist (position a) (waypoints t ! currentWaypointIndex a)
                               < waypointReachDistance a
                             \<and> (currentWaypointIndex a + 1) mod length (waypoints t) = 0
                             \<and> 4 * length (waypoints t) \<le> 5 * (checkpointsReached a + 1)
                          then laps a + 1 else laps a)
            \<and> checkpointsReached a'
                 = (if vec_dist (position a) (waypoints t ! currentWaypointIndex a)
                         < waypointReachDistance a
                    then (if (currentWaypointIndex a + 1) mod length (waypoints t) = 0
                             \<and> 4 * length (waypoints t) \<le> 5 * (checkpointsReached a + 1)
                          then 0 else checkpointsReached a + 1)
                    else checkpointsReached a))"
proof -
  have ne: "waypoints t \<noteq> []" using assms(3) by auto
  obtain c' where c': "checkWaypoints c = Inr c'"
    "if vec_dist (position c) (waypoints t ! ((lastCheckpoint c + 1) mod length (waypoints t)))
            < waypointReachDistance c
         then lastCheckpoint c' = (lastCheckpoint c + 1) mod length (waypoints t)
              \<and> (if (lastCheckpoint c + 1) mod length (waypoints t) = 0
                     \<and> 4 * length (waypoints t) \<le> 5 * (checkpointsReached c + 1)
                  then laps c' = laps c + 1 \<and> checkpointsReached c' = 0
                  else laps c' = laps c \<and> checkpointsReached c' = checkpointsReached c + 1)
         else c' = c"
    using checkWaypoints_rule [OF assms(1) ne] by blast
  obtain a' f where a': "followPath a = Inr (a', f)"
    "if vec_dist (position a) (waypoints t ! currentWaypointIndex a) < waypointReachDistance a
         then currentWaypointIndex a' = (currentWaypointIndex a + 1) mod length (waypoints t)
              \<and> lastCheckpoint a' = currentWaypointIndex a'
              \<and> (if (currentWaypointIndex a + 1) mod length (waypoints t) = 0
                     \<and> 4 * length (waypoints t) \<le> 5 * (checkpointsReached a + 1)
                  then laps a' = laps a + 1 \<and> checkpointsReached a' = 0
                  else laps a' = laps a \<and> checkpointsReached a' = checkpointsReached a + 1)
         else a' = a"
    using followPath_rule [OF assms(2,3)] by blast
  have p: "\<exists>c'. checkWaypoints c = Inr c'
            \<and> laps c' = (if vec_dist (position c)
                               (waypoints t ! ((lastCheckpoint c + 1) mod length (waypoints t)))
                               < waypointReachDistance c
                             \<and> (lastCheckpoint c + 1) mod length (waypoints t) = 0
                             \<and> 4 * length (waypoints t) \<le> 5 * (checkpointsReached c + 1)
                          then laps c + 1 else laps c)
            \<and> checkpointsReached c'
                 = (if vec_dist (position c)
                         (waypoints t ! ((lastCheckpoint c + 1) mod length (waypoints t)))
                         < waypointReachDistance c
                    then (if (lastCheckpoint c + 1) mod length (waypoints t) = 0
                             \<and> 4 * length (waypoints t) \<le> 5 * (checkpointsReached c + 1)
                          then 0 else checkpointsReached c + 1)
                    else checkpointsReached c)"
    using c' by (auto split: if_splits)
  have q: "\<exists>a' f. followPath a = Inr (a', f)
            \<and> laps a' = (if vec_dist (position a) (waypoints t ! currentWaypointIndex a)
                               < waypointReachDistance a
                             \<and> (currentWaypointIndex a + 1) mod length (waypoints t) = 0
                             \<and> 4 * length (waypoints t) \<le> 5 * (checkpointsReached a + 1)
                          then laps a + 1 else laps a)
            \<and> checkpointsReached a'
                 = (if vec_dist (position a) (waypoints t ! currentWaypointIndex a)
                         < waypointReachDistance a
                    then (if (currentWaypointIndex a + 1) mod length (waypoints t) = 0
                             \<and> 4 * length (waypoints t) \<le> 5 * (checkpointsReached a + 1)
                          then 0 else checkpointsReached a + 1)
                    else checkpointsReached a)"
    using a' by (auto split: if_splits)
  show ?thesis using p q by blast
qed

theorem lap_completion_rule_witness:
  "(\<exists>c'. checkWaypoints (player79 10) = Inr c' \<and> laps c' = 0 \<and> checkpointsReached c' = 11)
   \<and> (\<exists>a' f. followPath (follower79 10) = Inr (a', f) \<and> laps a' = 0 \<and> checkpointsReached a' = 11)
   \<and> (\<exists>c'. checkWaypoints (player79 70) = Inr c' \<and> laps c' = 1 \<and> checkpointsReached c' = 0)
   \<and> (\<exists>a' f. followPath (follower79 70) = Inr (a', f) \<and> laps a' = 1 \<and> checkpointsReached a' = 0)"
proof -
  have h: "track (player79 n) = Some track80" "track (follower79 n) = Some track80"
    "currentWaypointIndex (follower79 n) < length (waypoints track80)" for n
    by (simp_all add: player79_fields follower79_fields track80_facts)
  have d: "vec_dist (0, 0) (0, 0) < 65" "vec_dist (790, 0) (790, 0) < 55"
    by (simp_all add: vec_dist_def vec_sub_def vec_mag_x0)
  show ?thesis
    using lap_completion_rule [OF h(1) [of 10] h(2) [of 10] h(3) [of 10]]
      lap_completion_rule [OF h(1) [of 70] h(2) [of 70] h(3) [of 70]]
    by (simp add: player79_fields follower79_fields track80_facts d)
qed

section \<open>What the checkpoint index of an opponent means\<close>

lemma FollowerCar_reset_indices:
  assumes "waypoints t \<noteq> []"
  shows "\<exists>a'. FollowerCar_reset spawnPos wi t a = Inr a'
           \<and> lastCheckpoint a' = wi \<and> currentWaypointIndex a' = wi"
  using assms by (simp add: FollowerCar_reset_def Let_def)

text \<open>
  C10. For an opponent on a track, with its waypoint index in range: \<open>followPath\<close>
  completes and steers toward the waypoint at the (new) \<open>currentWaypointIndex\<close>. When the
  waypoint at the old index is reached, the index moves one on (modulo the number of
  waypoints) and \<open>lastCheckpoint\<close> is set to that new index, the waypoint the car now
  heads for; otherwise nothing changes. So \<open>lastCheckpoint = currentWaypointIndex\<close> holds
  after every call once it held before, and the constructor and \<open>reset\<close> establish it.
  For the player, \<open>checkWaypoints\<close> sets \<open>lastCheckpoint\<close> to the index of the
  waypoint that was reached. The progress \<open>laps * n + lastCheckpoint\<close> therefore counts
  the next waypoint for an opponent and the last reached one for the player.
\<close>

theorem follower_checkpoint_is_next_waypoint:
  assumes "track a = Some t" and "currentWaypointIndex a < length (waypoints t)"
    and "track c = Some t"
  shows "(\<exists>a' f. followPath a = Inr (a', f)
            \<and> f = seek a' (waypoints t ! currentWaypointIndex a')
            \<and> currentWaypointIndex a' < length (waypoints t)
            \<and> (if vec_dist (position a) (waypoints t ! currentWaypointIndex a) < waypointReachDistance a
                then currentWaypointIndex a' = (currentWaypointIndex a + 1) mod length (waypoints t)
                     \<and> lastCheckpoint a' = currentWaypointIndex a'
                     \<and> raceProgress t a' = laps a' * length (waypoints t)
                                             + (currentWaypointIndex a + 1) mod length (waypoints t)
                else a' = a)
            \<and> (lastCheckpoint a = currentWaypointIndex a \<longrightarrow> lastCheckpoint a' = currentWaypointIndex a'))
       \<and> (\<exists>c'. checkWaypoints c = Inr c'
            \<and> (if vec_dist (position c)
                      (waypoints t ! ((lastCheckpoint c + 1) mod length (waypoints t)))
                      < waypointReachDistance c
                then lastCheckpoint c' = (lastCheckpoint c + 1) mod length (waypoints t)
                     \<and> raceProgress t c' = laps c' * length (waypoints t)
                                             + (lastCheckpoint c + 1) mod length (waypoints t)
                else c' = c))
       \<and> lastCheckpoint (FollowerCar_new x y trk) = currentWaypointIndex (FollowerCar_new x y trk)
       \<and> (\<exists>a'. FollowerCar_reset spawnPos wi t a = Inr a'
            \<and> lastCheckpoint a' = wi \<and> currentWaypointIndex a' = wi)"
proof -
  have ne: "waypoints t \<noteq> []" using assms(2) by auto
  obtain a' f where a': "followPath a = Inr (a', f)"
    "f = seek a' (waypoints t ! currentWaypointIndex a')"
    "currentWaypointIndex a' < length (waypoints t)"
    "if vec_dist (position a) (waypoints t ! currentWaypointIndex a) < waypointReachDistance a
         then currentWaypointIndex a' = (currentWaypointIndex a + 1) mod length (waypoints t)
              \<and> lastCheckpoint a' = currentWaypointIndex a'
              \<and> (if (currentWaypointIndex a + 1) mod length (waypoints t) = 0
                     \<and> 4 * length (waypoints t) \<le> 5 * (checkpointsReached a + 1)
                  then laps a' = laps a + 1 \<and> checkpointsReached a' = 0
                  else laps a' = laps a \<and> checkpointsReached a' = checkpointsReached a + 1)
         else a' = a"
    using followPath_rule [OF assms(1,2)] by blast
  have fp: "\<exists>a' f. followPath a = Inr (a', f)
            \<and> f = seek a' (waypoints t ! currentWaypointIndex a')
            \<and> currentWaypointIndex a' < length (waypoints t)
            \<and> (if vec_dist (position a) (waypoints t ! currentWaypointIndex a) < waypointReachDistance a
                then currentWaypointIndex a' = (currentWaypointIndex a + 1) mod length (waypoints t)
                     \<and> lastCheckpoint a' = currentWaypointIndex a'
                     \<and> raceProgress t a' = laps a' * length (waypoints t)
                                             + (currentWaypointIndex a + 1) mod length (waypoints t)
                else a' = a)
            \<and> (lastCheckpoint a = currentWaypointIndex a \<longrightarrow> lastCheckpoint a' = currentWaypointIndex a')"
    using a' by (auto simp: raceProgress_def split: if_splits)
  obtain c' where c': "checkWaypoints c = Inr c'"
    "if vec_dist (position c) (waypoints t ! ((lastCheckpoint c + 1) mod length (waypoints t)))
            < waypointReachDistance c
         then lastCheckpoint c' = (lastCheckpoint c + 1) mod length (waypoints t)
              \<and> (if (lastCheckpoint c + 1) mod length (waypoints t) = 0
                     \<and> 4 * length (waypoints t) \<le> 5 * (checkpointsReached c + 1)
                  then laps c' = laps c + 1 \<and> checkpointsReached c' = 0
                  else laps c' = laps c \<and> checkpointsReached c' = checkpointsReached c + 1)
         else c' = c"
    using checkWaypoints_rule [OF assms(3) ne] by blast
  have cw: "\<exists>c'. checkWaypoints c = Inr c'
            \<and> (if vec_dist (position c)
                      (waypoints t ! ((lastCheckpoint c + 1) mod length (waypoints t)))
                      < waypointReachDistance c
                then lastCheckpoint c' = (lastCheckpoint c + 1) mod length (waypoints t)
                     \<and> raceProgress t c' = laps c' * length (waypoints t)
                                             + (lastCheckpoint c + 1) mod length (waypoints t)
                else c' = c)"
    using c' by (auto simp: raceProgress_def split: if_splits)
  have nw: "lastCheckpoint (FollowerCar_new x y trk) = currentWaypointIndex (FollowerCar_new x y trk)"
    by (simp add: FollowerCar_new_def)
  show ?thesis using fp cw nw FollowerCar_reset_indices [OF ne, of spawnPos wi a] by blast
qed

theorem follower_checkpoint_is_next_waypoint_witness:
  "(\<exists>a' f. followPath (FollowerCar_new 0 0 (Some track0)) = Inr (a', f)
       \<and> currentWaypointIndex a' = 1 \<and> lastCheckpoint a' = 1)
   \<and> (\<exists>c'. checkWaypoints (PlayerCar_new 200 0 (Some track0)) = Inr c'
       \<and> lastCheckpoint c' = 1)
   \<and> (\<exists>c'. checkWaypoints (PlayerCar_new 0 0 (Some track0)) = Inr c'
       \<and> lastCheckpoint c' = 0 \<and> raceProgress track0 c' = 0)"
proof -
  let ?a = "FollowerCar_new 0 0 (Some track0)"
  let ?c = "PlayerCar_new 200 0 (Some track0)"
  let ?d = "PlayerCar_new 0 0 (Some track0)"
  have h: "track ?a = Some track0" "currentWaypointIndex ?a < length (waypoints track0)"
    "track ?c = Some track0" "track ?d = Some track0"
    by (simp_all add: FollowerCar_new_def PlayerCar_new_def track0_def)
  have fa: "position ?a = (0, 0)" "currentWaypointIndex ?a = 0" "waypointReachDistance ?a = 55"
    by (simp_all add: FollowerCar_new_def)
  have fc: "position ?c = (200, 0)" "lastCheckpoint ?c = 0" "waypointReachDistance ?c = 65"
    "position ?d = (0, 0)" "lastCheckpoint ?d = 0" "waypointReachDistance ?d = 65"
    "laps ?d = 0"
    by (simp_all add: PlayerCar_new_def)
  have w: "length (waypoints track0) = 2" "waypoints track0 ! 0 = (0, 0)"
    "waypoints track0 ! 1 = (200, 0)" "waypoints track0 ! Suc 0 = (200, 0)"
    by (simp_all add: track0_def)
  have d: "vec_dist (0, 0) (0, 0) < 55" "vec_dist (200, 0) (200, 0) < 65"
    "\<not> vec_dist (0, 0) (200, 0) < 65"
    by (simp_all add: vec_dist_def vec_sub_def vec_mag_x0)
  have r: "raceProgress track0 ?d = 0" by (simp add: raceProgress_def fc)
  from follower_checkpoint_is_next_waypoint [OF h(1) h(2) h(3), of 0 0 None "(0, 0)" 0]
  have 1: "\<exists>a' f. followPath ?a = Inr (a', f)
       \<and> currentWaypointIndex a' = 1 \<and> lastCheckpoint a' = 1"
    and 2: "\<exists>c'. checkWaypoints ?c = Inr c' \<and> lastCheckpoint c' = 1"
    by (auto simp add: fa fc w d)
  from follower_checkpoint_is_next_waypoint [OF h(1) h(2) h(4), of 0 0 None "(0, 0)" 0]
  have 3: "\<exists>c'. checkWaypoints ?d = Inr c' \<and> lastCheckpoint c' = 0 \<and> raceProgress track0 c' = 0"
    by (simp add: fa fc w d r)
  show ?thesis using 1 2 3 by blast
qed

section \<open>Race progress\<close>

lemma onSchedule_same:
  "track c' = track c \<Longrightarrow> sameRace c c' \<Longrightarrow> onSchedule t c \<Longrightarrow> onSchedule t c'"
  by (simp add: onSchedule_def sameRace_def)

lemma raceProgress_same: "sameRace c c' \<Longrightarrow> raceProgress t c' = raceProgress t c"
  by (simp add: raceProgress_def sameRace_def)

lemma onSchedule_hasWaypoints: "onSchedule t c \<Longrightarrow> hasWaypoints c"
  by (auto simp: onSchedule_def hasWaypoints_def)

lemma schedule_step:
  assumes "lc < n" "cr = lc"
    and "if reached
         then lc' = (lc + 1) mod n
              \<and> (if (lc + 1) mod n = 0 \<and> 4 * n \<le> 5 * (cr + 1)
                  then l' = l + 1 \<and> cr' = 0
                  else l' = l \<and> cr' = cr + 1)
         else lc' = lc \<and> l' = l \<and> cr' = (cr :: nat)"
  shows "lc' < n \<and> cr' = lc' \<and> l * n + lc \<le> l' * n + lc'
         \<and> (l' = l \<and> lc' = lc \<or> l' = l \<and> lc' = lc + 1 \<or> l' = l + 1 \<and> lc' = 0 \<and> lc + 1 = n)"
proof (cases reached)
  case False
  with assms show ?thesis by simp
next
  case True
  show ?thesis
  proof (cases "lc + 1 = n")
    case wrap: True
    then have "(lc + 1) mod n = 0" "4 * n \<le> 5 * (cr + 1)" using assms(2) by simp_all
    with assms True wrap show ?thesis by simp
  next
    case False
    with assms(1) have lt: "lc + 1 < n" by simp
    then have "(lc + 1) mod n = lc + 1" by simp
    with assms True lt show ?thesis by simp
  qed
qed

lemma checkWaypoints_schedule:
  assumes "onSchedule t c"
  shows "\<exists>c'. checkWaypoints c = Inr c' \<and> sameCar c c' \<and> onSchedule t c'
           \<and> raceProgress t c \<le> raceProgress t c'
           \<and> (laps c' = laps c \<and> lastCheckpoint c' = lastCheckpoint c
                \<or> laps c' = laps c \<and> lastCheckpoint c' = lastCheckpoint c + 1
                \<or> laps c' = laps c + 1 \<and> lastCheckpoint c' = 0
                    \<and> lastCheckpoint c + 1 = length (waypoints t))"
proof -
  from assms have t: "track c = Some t" and lt: "lastCheckpoint c < length (waypoints t)"
    and cr: "checkpointsReached c = lastCheckpoint c"
    by (simp_all add: onSchedule_def)
  have ne: "waypoints t \<noteq> []" using lt by auto
  obtain c' where c': "checkWaypoints c = Inr c'"
    and r: "if vec_dist (position c) (waypoints t ! ((lastCheckpoint c + 1) mod length (waypoints t)))
            < waypointReachDistance c
         then lastCheckpoint c' = (lastCheckpoint c + 1) mod length (waypoints t)
              \<and> (if (lastCheckpoint c + 1) mod length (waypoints t) = 0
                     \<and> 4 * length (waypoints t) \<le> 5 * (checkpointsReached c + 1)
                  then laps c' = laps c + 1 \<and> checkpointsReached c' = 0
                  else laps c' = laps c \<and> checkpointsReached c' = checkpointsReached c + 1)
         else c' = c"
    using checkWaypoints_rule [OF t ne] by blast
  have s: "sameCar c c'"
    using checkWaypoints_frame [OF onSchedule_hasWaypoints [OF assms]] c' by auto
  have r': "if vec_dist (position c) (waypoints t ! ((lastCheckpoint c + 1) mod length (waypoints t)))
            < waypointReachDistance c
         then lastCheckpoint c' = (lastCheckpoint c + 1) mod length (waypoints t)
              \<and> (if (lastCheckpoint c + 1) mod length (waypoints t) = 0
                     \<and> 4 * length (waypoints t) \<le> 5 * (checkpointsReached c + 1)
                  then laps c' = laps c + 1 \<and> checkpointsReached c' = 0
                  else laps c' = laps c \<and> checkpointsReached c' = checkpointsReached c + 1)
         else lastCheckpoint c' = lastCheckpoint c \<and> laps c' = laps c
              \<and> checkpointsReached c' = checkpointsReached c"
    using r by (auto split: if_splits)
  note st = schedule_step [OF lt cr r']
  have "track c' = Some t" using s t by (simp add: sameCar_def)
  then have "onSchedule t c'" using st by (simp add: onSchedule_def)
  then show ?thesis using c' s st by (simp add: raceProgress_def)
qed

lemma PlayerCar_update_schedule:
  assumes "onSchedule t c"
  shows "\<exists>c'. PlayerCar_update k c = Inr c' \<and> onSchedule t c'
           \<and> raceProgress t c \<le> raceProgress t c'
           \<and> (laps c' = laps c \<and> lastCheckpoint c' = lastCheckpoint c
                \<or> laps c' = laps c \<and> lastCheckpoint c' = lastCheckpoint c + 1
                \<or> laps c' = laps c + 1 \<and> lastCheckpoint c' = 0
                    \<and> lastCheckpoint c + 1 = length (waypoints t))"
proof (cases "finished c")
  case True
  then show ?thesis using assms by (simp add: PlayerCar_update_def)
next
  case False
  obtain c6 where i: "PlayerCar_update_integrate k c = Inr c6"
    and c6: "sameCar c c6" "sameRace c c6"
    using PlayerCar_update_integrate_frame [of c k] by blast
  have o6: "onSchedule t c6" using onSchedule_same [OF _ c6(2) assms] c6(1) by (simp add: sameCar_def)
  obtain c7 where b: "handleBoundary c6 = Inr c7" and c7: "sameCar c6 c7" "sameRace c6 c7"
    using handleBoundary_frame [OF onSchedule_hasWaypoints [OF o6]] by blast
  have o7: "onSchedule t c7" using onSchedule_same [OF _ c7(2) o6] c7(1) by (simp add: sameCar_def)
  have h: "sameCar c7 (handleObstacles c7)" "sameRace c7 (handleObstacles c7)"
    using handleObstacles_frame [of c7] by simp_all
  have o8: "onSchedule t (handleObstacles c7)"
    using onSchedule_same [OF _ h(2) o7] h(1) by (simp add: sameCar_def)
  obtain c8 where w: "checkWaypoints (handleObstacles c7) = Inr c8" and s8: "onSchedule t c8"
    and p8: "raceProgress t (handleObstacles c7) \<le> raceProgress t c8"
    and m8: "laps c8 = laps (handleObstacles c7) \<and> lastCheckpoint c8 = lastCheckpoint (handleObstacles c7)
                \<or> laps c8 = laps (handleObstacles c7) \<and> lastCheckpoint c8 = lastCheckpoint (handleObstacles c7) + 1
                \<or> laps c8 = laps (handleObstacles c7) + 1 \<and> lastCheckpoint c8 = 0
                    \<and> lastCheckpoint (handleObstacles c7) + 1 = length (waypoints t)"
    using checkWaypoints_schedule [OF o8] by blast
  have e: "sameCar c8 (edges c8)" "sameRace c8 (edges c8)"
    using edges_frame [of c8] by simp_all
  have o9: "onSchedule t (edges c8)"
    using onSchedule_same [OF _ e(2) s8] e(1) by (simp add: sameCar_def)
  have u: "PlayerCar_update k c = Inr (edges c8)"
    using False i b w by (simp add: PlayerCar_update_def and_then_def)
  have eq: "sameRace c (handleObstacles c7)"
    using c6(2) c7(2) h(2) sameRace_trans by blast
  show ?thesis
    using u o9 p8 m8 eq e(2) by (simp add: raceProgress_def sameRace_def)
qed

lemma PlayerCar_steps_schedule:
  assumes "onSchedule t c"
  shows "\<exists>c'. PlayerCar_steps ks c = Inr c' \<and> onSchedule t c'
           \<and> raceProgress t c \<le> raceProgress t c'"
  using assms
proof (induction ks arbitrary: c)
  case Nil
  then show ?case by simp
next
  case (Cons k ks)
  obtain c1 where u: "PlayerCar_update k c = Inr c1" and s: "onSchedule t c1"
    and p: "raceProgress t c \<le> raceProgress t c1"
    using PlayerCar_update_schedule [OF Cons.prems] by blast
  obtain c' where "PlayerCar_steps ks c1 = Inr c'" "onSchedule t c'"
    "raceProgress t c1 \<le> raceProgress t c'"
    using Cons.IH [OF s] by blast
  then show ?case using u p by (auto simp: and_then_def)
qed

lemma followPath_schedule:
  assumes "onSchedule t a" "currentWaypointIndex a = lastCheckpoint a"
  shows "\<exists>a' f. followPath a = Inr (a', f) \<and> onSchedule t a'
           \<and> currentWaypointIndex a' = lastCheckpoint a' \<and> finished a' = finished a
           \<and> raceProgress t a \<le> raceProgress t a'
           \<and> (laps a' = laps a \<and> lastCheckpoint a' = lastCheckpoint a
                \<or> laps a' = laps a \<and> lastCheckpoint a' = lastCheckpoint a + 1
                \<or> laps a' = laps a + 1 \<and> lastCheckpoint a' = 0
                    \<and> lastCheckpoint a + 1 = length (waypoints t))"
proof -
  from assms have t: "track a = Some t" and lt: "lastCheckpoint a < length (waypoints t)"
    and cr: "checkpointsReached a = lastCheckpoint a"
    by (simp_all add: onSchedule_def)
  have i: "currentWaypointIndex a < length (waypoints t)" using lt assms(2) by simp
  obtain a' f where a': "followPath a = Inr (a', f)" and t': "track a' = Some t"
    and f': "finished a' = finished a"
    and r: "if vec_dist (position a) (waypoints t ! currentWaypointIndex a) < waypointReachDistance a
         then currentWaypointIndex a' = (currentWaypointIndex a + 1) mod length (waypoints t)
              \<and> lastCheckpoint a' = currentWaypointIndex a'
              \<and> (if (currentWaypointIndex a + 1) mod length (waypoints t) = 0
                     \<and> 4 * length (waypoints t) \<le> 5 * (checkpointsReached a + 1)
                  then laps a' = laps a + 1 \<and> checkpointsReached a' = 0
                  else laps a' = laps a \<and> checkpointsReached a' = checkpointsReached a + 1)
         else a' = a"
    using followPath_rule [OF t i] by blast
  have cw: "currentWaypointIndex a' = lastCheckpoint a'"
    using r assms(2) by (auto split: if_splits)
  have r': "if vec_dist (position a) (waypoints t ! currentWaypointIndex a) < waypointReachDistance a
         then lastCheckpoint a' = (lastCheckpoint a + 1) mod length (waypoints t)
              \<and> (if (lastCheckpoint a + 1) mod length (waypoints t) = 0
                     \<and> 4 * length (waypoints t) \<le> 5 * (checkpointsReached a + 1)
                  then laps a' = laps a + 1 \<and> checkpointsReached a' = 0
                  else laps a' = laps a \<and> checkpointsReached a' = checkpointsReached a + 1)
         else lastCheckpoint a' = lastCheckpoint a \<and> laps a' = laps a
              \<and> checkpointsReached a' = checkpointsReached a"
    using r assms(2) by (auto split: if_splits)
  note st = schedule_step [OF lt cr r']
  have "onSchedule t a'" using st t' by (simp add: onSchedule_def)
  then show ?thesis using a' cw f' st by (simp add: raceProgress_def)
qed

lemma applyBehaviors_schedule:
  assumes "onSchedule t a" "currentWaypointIndex a = lastCheckpoint a"
  shows "\<exists>a1. applyBehaviors vehicles self targetCar a = Inr a1 \<and> onSchedule t a1
           \<and> currentWaypointIndex a1 = lastCheckpoint a1
           \<and> raceProgress t a \<le> raceProgress t a1
           \<and> (laps a1 = laps a \<and> lastCheckpoint a1 = lastCheckpoint a
                \<or> laps a1 = laps a \<and> lastCheckpoint a1 = lastCheckpoint a + 1
                \<or> laps a1 = laps a + 1 \<and> lastCheckpoint a1 = 0
                    \<and> lastCheckpoint a + 1 = length (waypoints t))"
proof (cases "finished a")
  case True
  then show ?thesis using assms by (simp add: applyBehaviors_def)
next
  case False
  obtain a' f where a': "followPath a = Inr (a', f)" and s: "onSchedule t a'"
    and cw: "currentWaypointIndex a' = lastCheckpoint a'"
    and p: "raceProgress t a \<le> raceProgress t a'"
    and m: "laps a' = laps a \<and> lastCheckpoint a' = lastCheckpoint a
                \<or> laps a' = laps a \<and> lastCheckpoint a' = lastCheckpoint a + 1
                \<or> laps a' = laps a + 1 \<and> lastCheckpoint a' = 0
                    \<and> lastCheckpoint a + 1 = length (waypoints t)"
    using followPath_schedule [OF assms] by blast
  from s have t': "track a' = Some t" and ne: "waypoints t \<noteq> []"
    by (auto simp: onSchedule_def)
  have "\<exists>bf. avoidBoundary a' = Inr bf"
    using getTrackBoundaryForce_total [OF ne, where pos = "position a'" and vel = "velocity a'"] t'
    by (simp add: avoidBoundary_def)
  then obtain bf where bf: "avoidBoundary a' = Inr bf" by blast
  let ?a1 = "applyForce (applyForce (applyForce (applyForce a'
               (vec_mult f (pathWeight a')))
               (vec_mult (separate a' self vehicles) (separationWeight a')))
               (vec_mult (avoidCar a' targetCar) 2))
               (vec_mult bf (boundaryWeight a'))"
  have u: "applyBehaviors vehicles self targetCar a = Inr ?a1"
    using False a' bf by (simp add: applyBehaviors_def and_then_def Let_def)
  have same: "track ?a1 = track a'" "sameRace a' ?a1"
    "currentWaypointIndex ?a1 = currentWaypointIndex a'"
    by (simp_all add: applyForce_def sameRace_def)
  have s1: "onSchedule t ?a1" using onSchedule_same [OF same(1,2) s] .
  show ?thesis
    using u s1 same cw p m by (simp add: raceProgress_def sameRace_def)
qed

lemma FollowerCar_update_race:
  "track (FollowerCar_update a) = track a \<and> sameRace a (FollowerCar_update a)
   \<and> currentWaypointIndex (FollowerCar_update a) = currentWaypointIndex a"
  by (simp add: FollowerCar_update_def edges_def Vehicule_update_def Let_def sameRace_def)

text \<open>
  C4. Call a racer on schedule when it is on the track \<open>t\<close>, its checkpoint index is
  within the track and its checkpoint counter equals that index; the constructors of both
  kinds of car put them on schedule (for an opponent, with its waypoint index equal to its
  checkpoint index). From there, one frame of the player (\<open>PlayerCar.update\<close>) or of an
  opponent (\<open>applyBehaviors\<close>, then \<open>update\<close>) completes, keeps the racer on
  schedule, and never lowers the progress \<open>laps * n + lastCheckpoint\<close>: the checkpoint
  index stays, or goes up by one within the lap, or wraps from \<open>n - 1\<close> to 0 together
  with one more lap. The same holds over any run of player frames.
\<close>

theorem progress_monotone:
  assumes "onSchedule t c" and "onSchedule t a" and "currentWaypointIndex a = lastCheckpoint a"
  shows "(\<exists>c'. PlayerCar_update k c = Inr c' \<and> onSchedule t c'
            \<and> raceProgress t c \<le> raceProgress t c'
            \<and> (laps c' = laps c \<and> lastCheckpoint c' = lastCheckpoint c
                 \<or> laps c' = laps c \<and> lastCheckpoint c' = lastCheckpoint c + 1
                 \<or> laps c' = laps c + 1 \<and> lastCheckpoint c' = 0
                     \<and> lastCheckpoint c + 1 = length (waypoints t)))
       \<and> (\<exists>c'. PlayerCar_steps ks c = Inr c' \<and> onSchedule t c'
            \<and> raceProgress t c \<le> raceProgress t c')
       \<and> (\<exists>a1. applyBehaviors vehicles self targetCar a = Inr a1
            \<and> onSchedule t (FollowerCar_update a1)
            \<and> currentWaypointIndex (FollowerCar_update a1) = lastCheckpoint (FollowerCar_update a1)
            \<and> raceProgress t a \<le> raceProgress t (FollowerCar_update a1)
            \<and> getRaceProgress (FollowerCar_update a1) = raceProgress t (FollowerCar_update a1)
            \<and> (laps (FollowerCar_update a1) = laps a
                   \<and> lastCheckpoint (FollowerCar_update a1) = lastCheckpoint a
                 \<or> laps (FollowerCar_update a1) = laps a
                   \<and> lastCheckpoint (FollowerCar_update a1) = lastCheckpoint a + 1
                 \<or> laps (FollowerCar_update a1) = laps a + 1
                   \<and> lastCheckpoint (FollowerCar_update a1) = 0
                   \<and> lastCheckpoint a + 1 = length (waypoints t)))
       \<and> onSchedule t (PlayerCar_new x y (Some t))
       \<and> onSchedule t (FollowerCar_new x y (Some t))
       \<and> currentWaypointIndex (FollowerCar_new x y (Some t))
           = lastCheckpoint (FollowerCar_new x y (Some t))"
proof -
  have ne: "0 < length (waypoints t)" using assms(1) by (auto simp: onSchedule_def)
  obtain a1 where a1: "applyBehaviors vehicles self targetCar a = Inr a1" and s: "onSchedule t a1"
    and cw: "currentWaypointIndex a1 = lastCheckpoint a1"
    and p: "raceProgress t a \<le> raceProgress t a1"
    and m: "laps a1 = laps a \<and> lastCheckpoint a1 = lastCheckpoint a
                \<or> laps a1 = laps a \<and> lastCheckpoint a1 = lastCheckpoint a + 1
                \<or> laps a1 = laps a + 1 \<and> lastCheckpoint a1 = 0
                    \<and> lastCheckpoint a + 1 = length (waypoints t)"
    using applyBehaviors_schedule [OF assms(2,3)] by blast
  have f: "track (FollowerCar_update a1) = track a1" "sameRace a1 (FollowerCar_update a1)"
    "currentWaypointIndex (FollowerCar_update a1) = currentWaypointIndex a1"
    using FollowerCar_update_race [of a1] by simp_all
  have s': "onSchedule t (FollowerCar_update a1)" using onSchedule_same [OF f(1,2) s] .
  have g: "getRaceProgress (FollowerCar_update a1) = raceProgress t (FollowerCar_update a1)"
    using s' by (simp add: getRaceProgress_def raceProgress_def onSchedule_def)
  have fol: "\<exists>a1. applyBehaviors vehicles self targetCar a = Inr a1
            \<and> onSchedule t (FollowerCar_update a1)
            \<and> currentWaypointIndex (FollowerCar_update a1) = lastCheckpoint (FollowerCar_update a1)
            \<and> raceProgress t a \<le> raceProgress t (FollowerCar_update a1)
            \<and> getRaceProgress (FollowerCar_update a1) = raceProgress t (FollowerCar_update a1)
            \<and> (laps (FollowerCar_update a1) = laps a
                   \<and> lastCheckpoint (FollowerCar_update a1) = lastCheckpoint a
                 \<or> laps (FollowerCar_update a1) = laps a
                   \<and> lastCheckpoint (FollowerCar_update a1) = lastCheckpoint a + 1
                 \<or> laps (FollowerCar_update a1) = laps a + 1
                   \<and> lastCheckpoint (FollowerCar_update a1) = 0
                   \<and> lastCheckpoint a + 1 = length (waypoints t))"
    using a1 s' g f cw p m by (simp add: raceProgress_def sameRace_def)
  have new: "onSchedule t (PlayerCar_new x y (Some t))" "onSchedule t (FollowerCar_new x y (Some t))"
    "currentWaypointIndex (FollowerCar_new x y (Some t)) = lastCheckpoint (FollowerCar_new x y (Some t))"
    using ne by (simp_all add: onSchedule_def PlayerCar_new_def FollowerCar_new_def)
  show ?thesis
    using PlayerCar_update_schedule [OF assms(1), of k] PlayerCar_steps_schedule [OF assms(1), of ks]
      fol new by blast
qed

theorem progress_monotone_witness:
  "(\<exists>c'. PlayerCar_update noKeys (player79 79) = Inr c' \<and> onSchedule track80 c'
        \<and> 79 \<le> raceProgress track80 c')
   \<and> (\<exists>c'. PlayerCar_steps [noKeys, shiftKey] (player79 79) = Inr c' \<and> onSchedule track80 c'
        \<and> 79 \<le> raceProgress track80 c')
   \<and> (\<exists>a1. applyBehaviors [follower79 79] 0 (player79 79) (follower79 79) = Inr a1
        \<and> onSchedule track80 (FollowerCar_update a1)
        \<and> 79 \<le> raceProgress track80 (FollowerCar_update a1))"
proof -
  have h: "onSchedule track80 (player79 79)" "onSchedule track80 (follower79 79)"
    "currentWaypointIndex (follower79 79) = lastCheckpoint (follower79 79)"
    by (simp_all add: onSchedule_def player79_fields follower79_fields track80_facts)
  have p: "raceProgress track80 (player79 79) = 79" "raceProgress track80 (follower79 79) = 79"
    by (simp_all add: raceProgress_def player79_fields follower79_fields)
  note t = progress_monotone [OF h, of noKeys "[noKeys, shiftKey]" "[follower79 79]" 0 "player79 79" 0 0]
  from t have 1: "\<exists>c'. PlayerCar_update noKeys (player79 79) = Inr c' \<and> onSchedule track80 c'
        \<and> 79 \<le> raceProgress track80 c'"
    unfolding p by blast
  from t have 2: "\<exists>c'. PlayerCar_steps [noKeys, shiftKey] (player79 79) = Inr c' \<and> onSchedule track80 c'
        \<and> 79 \<le> raceProgress track80 c'"
    unfolding p by blast
  from t have 3: "\<exists>a1. applyBehaviors [follower79 79] 0 (player79 79) (follower79 79) = Inr a1
        \<and> onSchedule track80 (FollowerCar_update a1)
        \<and> 79 \<le> raceProgress track80 (FollowerCar_update a1)"
    unfolding p by blast
  show ?thesis using 1 2 3 by blast
qed

section \<open>The finished flag\<close>

lemma checkRaceFinished_ai_cars: "aiCars (checkRaceFinished_ai cars g) = aiCars g"
  by (induction cars) simp_all

lemma checkRaceFinished_cars: "aiCars (checkRaceFinished g) = aiCars g"
  by (simp add: checkRaceFinished_def Let_def checkRaceFinished_ai_cars)

lemma aiLap2_fields:
  "laps aiLap2 = 2" "finished aiLap2 = False" "position aiLap2 = (100, 100)"
  "velocity aiLap2 = (3, 0)" "acceleration aiLap2 = (0, 0)" "maxspeed aiLap2 = 4" "r aiLap2 = 10"
  "track aiLap2 = Some trackY" "currentWaypointIndex aiLap2 = 0" "waypointReachDistance aiLap2 = 55"
  "maxforce aiLap2 = 6 / 25" "pathWeight aiLap2 = 3 / 2" "separationWeight aiLap2 = 5 / 2"
  "boundaryWeight aiLap2 = 2" "desiredSeparation aiLap2 = 50"
  by (simp_all add: aiLap2_def FollowerCar_new_def)

lemma vec_limit_x0:
  assumes "0 \<le> m"
  shows "vec_limit (x, 0) m = (if \<bar>x\<bar> > m then (sgn x * m, 0) else (x, 0))"
proof (cases "\<bar>x\<bar> > m")
  case True
  then have "x * x > m * m"
    using assms by (metis abs_ge_zero abs_mult_self_eq abs_of_nonneg mult_strict_mono')
  moreover have "x \<noteq> 0" using True assms by auto
  ultimately show ?thesis
    using True by (simp add: vec_limit_def vec_magSq_def Let_def vec_div_def vec_mult_def sgn_real_def)
next
  case False
  then have "\<bar>x\<bar> \<le> \<bar>m\<bar>" using assms by simp
  then have "x * x \<le> m * m" by (simp add: abs_le_square_iff power2_eq_square)
  then show ?thesis using False by (simp add: vec_limit_def vec_magSq_def Let_def)
qed

lemma aiLap2_forces:
  "applyBehaviors [aiLap2] 0 (PlayerCar_new 0 100 (Some trackY)) aiLap2
     = Inr (aiLap2\<lparr>acceleration := (- (23 / 5), 0)\<rparr>)"
proof -
  have fp: "followPath aiLap2 = Inr (aiLap2, (- (6 / 25), 0))"
    by (simp add: followPath_def aiLap2_fields trackY_def Let_def seek_def vec_dist_def
        vec_sub_def vec_mag_x0 vec_setMag_def vec_normalize_def vec_mult_def vec_limit_x0)
  have sp: "separate aiLap2 0 [aiLap2] = (0, 0)"
    by (simp add: separate_def Let_def vec_mag_x0)
  have av: "avoidCar aiLap2 (PlayerCar_new 0 100 (Some trackY)) = (0, 0)"
    by (simp add: avoidCar_def Let_def aiLap2_fields PlayerCar_new_def vec_dist_def vec_sub_def
        vec_mag_x0)
  have bd: "avoidBoundary aiLap2 = Inr (- (53 / 25), 0)"
    by (simp add: avoidBoundary_def aiLap2_fields trackY_def getTrackBoundaryForce_def
        getClosestWaypointIndex_def Let_def vec_dist_def vec_sub_def vec_mag_x0
        vec_normalize_def vec_mult_def p5_map_def)
  show ?thesis
    by (simp add: applyBehaviors_def aiLap2_fields fp sp av bd and_then_def Let_def
        applyForce_def vec_mult_def vec_add_def)
qed

text \<open>
  The flag \<open>finished\<close> freezes a car: \<open>FollowerCar.update\<close>,
  \<open>applyBehaviors\<close> and \<open>PlayerCar.update\<close> leave a car with the flag set as it is.
  \<open>checkRaceFinished\<close> sets the flag of the player when the player has won; it never
  writes to an opponent, and neither does an opponent's own frame, so the guards on the
  flag in \<open>FollowerCar\<close> are never taken. An opponent with two laps would still be
  moved by one more \<open>applyBehaviors\<close> and \<open>update\<close>; the sketch makes no such
  call, because \<open>draw\<close> stops calling \<open>updateGame\<close> once the race is over.
\<close>

lemma opponent_finished_flag_never_set:
  "aiCars (checkRaceFinished g) = aiCars g
   \<and> finished (FollowerCar_update a) = finished a
   \<and> FollowerCar_update (a\<lparr>finished := True\<rparr>) = a\<lparr>finished := True\<rparr>
   \<and> applyBehaviors vehicles self targetCar (a\<lparr>finished := True\<rparr>) = Inr (a\<lparr>finished := True\<rparr>)
   \<and> PlayerCar_update k (c\<lparr>finished := True\<rparr>) = Inr (c\<lparr>finished := True\<rparr>)
   \<and> finished (playerCar (checkRaceFinished racePlayerWins))
   \<and> gameState (checkRaceFinished raceAiWins) = raceLost
   \<and> aiCars (checkRaceFinished raceAiWins) = [aiLap2]
   \<and> laps aiLap2 = 2 \<and> \<not> finished aiLap2
   \<and> position aiLap2 = (100, 100) \<and> velocity aiLap2 = (3, 0)
   \<and> position (FollowerCar_update aiLap2) = (103, 100)
   \<and> applyBehaviors [aiLap2] 0 (PlayerCar_new 0 100 (Some trackY)) aiLap2
       = Inr (aiLap2\<lparr>acceleration := (- (23 / 5), 0)\<rparr>)
   \<and> velocity (FollowerCar_update (aiLap2\<lparr>acceleration := (- (23 / 5), 0)\<rparr>)) = (- (8 / 5), 0)
   \<and> position (FollowerCar_update (aiLap2\<lparr>acceleration := (- (23 / 5), 0)\<rparr>)) = (492 / 5, 100)
   \<and> draw k (checkRaceFinished raceAiWins) = Inr (checkRaceFinished raceAiWins)"
proof -
  have 1: "finished (FollowerCar_update a) = finished a"
    by (simp add: FollowerCar_update_def edges_def Vehicule_update_def Let_def)
  have 2: "FollowerCar_update (a\<lparr>finished := True\<rparr>) = a\<lparr>finished := True\<rparr>"
    "applyBehaviors vehicles self targetCar (a\<lparr>finished := True\<rparr>) = Inr (a\<lparr>finished := True\<rparr>)"
    "PlayerCar_update k (c\<lparr>finished := True\<rparr>) = Inr (c\<lparr>finished := True\<rparr>)"
    by (simp_all add: FollowerCar_update_def applyBehaviors_def PlayerCar_update_def)
  have 3: "finished (playerCar (checkRaceFinished racePlayerWins))"
    by (simp add: checkRaceFinished_def racePlayerWins_def raceAiWins_def LAPS_TO_WIN_def
        MAX_LEVEL_def Let_def PlayerCar_new_def)
  have 4: "gameState (checkRaceFinished raceAiWins) = raceLost"
    by (simp add: checkRaceFinished_def raceAiWins_def LAPS_TO_WIN_def aiLap2_fields
        PlayerCar_new_def)
  have 5: "aiCars (checkRaceFinished raceAiWins) = [aiLap2]"
    by (simp add: checkRaceFinished_cars) (simp add: raceAiWins_def)
  have 6: "position (FollowerCar_update aiLap2) = (103, 100)"
    by (simp add: FollowerCar_update_def edges_def Vehicule_update_def Let_def aiLap2_fields
        vec_add_def vec_mult_def vec_limit_def vec_magSq_def width_def height_def)
  have 7: "draw k (checkRaceFinished raceAiWins) = Inr (checkRaceFinished raceAiWins)"
    by (simp add: draw_def 4)
  have 8: "velocity (FollowerCar_update (aiLap2\<lparr>acceleration := (- (23 / 5), 0)\<rparr>)) = (- (8 / 5), 0)"
    "position (FollowerCar_update (aiLap2\<lparr>acceleration := (- (23 / 5), 0)\<rparr>)) = (492 / 5, 100)"
    by (simp_all add: FollowerCar_update_def edges_def Vehicule_update_def Let_def aiLap2_fields
        vec_add_def vec_mult_def vec_limit_def vec_magSq_def width_def height_def)
  show ?thesis
    using checkRaceFinished_cars [of g] 1 2 3 4 5 6 7 8 aiLap2_forces aiLap2_fields by simp
qed

section \<open>After the race\<close>

lemma checkRaceFinished_ai_player: "playerCar (checkRaceFinished_ai cars g) = playerCar g"
  by (induction cars) simp_all

lemma checkRaceFinished_ai_lost:
  "\<exists>a \<in> set cars. LAPS_TO_WIN \<le> laps a \<Longrightarrow> \<not> raceFinished g \<Longrightarrow>
     gameState (checkRaceFinished_ai cars g) = raceLost \<and> raceFinished (checkRaceFinished_ai cars g)"
  by (induction cars) auto

lemma checkRaceFinished_over:
  assumes "\<not> raceFinished g"
    and "LAPS_TO_WIN \<le> laps (playerCar g) \<or> (\<exists>a \<in> set (aiCars g). LAPS_TO_WIN \<le> laps a)"
  shows "gameState (checkRaceFinished g) \<noteq> playing \<and> raceFinished (checkRaceFinished g)
         \<and> (LAPS_TO_WIN \<le> laps (playerCar g) \<longrightarrow> finished (playerCar (checkRaceFinished g)))"
proof (cases "LAPS_TO_WIN \<le> laps (playerCar g)")
  case True
  then show ?thesis using assms(1) by (simp add: checkRaceFinished_def Let_def)
next
  case False
  with assms(2) have "\<exists>a \<in> set (aiCars g). LAPS_TO_WIN \<le> laps a" by simp
  from checkRaceFinished_ai_lost [OF this assms(1)] False
  show ?thesis by (simp add: checkRaceFinished_def)
qed

lemma checkRaceFinished_laps:
  "laps (playerCar (checkRaceFinished g)) = laps (playerCar g)"
  by (simp add: checkRaceFinished_def Let_def checkRaceFinished_ai_player)

lemma draw_playing:
  assumes "gameState g = playing" "draw k g = Inr g'"
  shows "\<exists>g1. g' = checkRaceFinished g1 \<and> raceFinished g1 = raceFinished g"
  using assms
  by (auto simp: draw_def updateGame_def and_then_def split: sum.splits)

lemma draw_frames_stopped: "gameState g \<noteq> playing \<Longrightarrow> draw_frames ks g = Inr g"
  by (induction ks) (simp_all add: draw_def and_then_def)

lemma draw_keeps_race_open:
  assumes "gameState g = playing \<longrightarrow> \<not> raceFinished g" "draw k g = Inr g'"
  shows "gameState g' = playing \<longrightarrow> \<not> raceFinished g'"
proof (cases "gameState g = playing")
  case False
  then show ?thesis using assms by (simp add: draw_def)
next
  case True
  then obtain g1 where g1: "g' = checkRaceFinished g1" "\<not> raceFinished g1"
    using draw_playing [OF True assms(2)] assms(1) by auto
  have "gameState (checkRaceFinished_ai cars h) = playing \<longrightarrow> \<not> raceFinished (checkRaceFinished_ai cars h)"
    if "\<not> raceFinished h" for cars h
    using that by (induction cars) auto
  then show ?thesis using g1 by (auto simp: checkRaceFinished_def Let_def)
qed

text \<open>
  C6. A step of the race is one call of \<open>draw\<close> in the state \<open>playing\<close> with the
  race still open. If after such a step the player or any opponent has
  \<open>LAPS_TO_WIN = 2\<close> laps (or more), the game has left the state \<open>playing\<close> and
  the race is marked finished, and every later call of \<open>draw\<close>, whatever the keys,
  returns the game as it is: no force is applied and nothing is integrated, so the position
  and the velocity of every car stay as that step left them. When it is the player who has
  the laps, its \<open>finished\<close> flag is set and \<open>PlayerCar.update\<close> on it does
  nothing.
\<close>

theorem finished_competitor_is_frozen:
  assumes "gameState g = playing" and "\<not> raceFinished g" and "draw k g = Inr g'"
    and "LAPS_TO_WIN \<le> laps (playerCar g') \<or> (\<exists>a \<in> set (aiCars g'). LAPS_TO_WIN \<le> laps a)"
  shows "gameState g' \<noteq> playing \<and> raceFinished g'
         \<and> draw_frames ks g' = Inr g'
         \<and> (LAPS_TO_WIN \<le> laps (playerCar g') \<longrightarrow>
              finished (playerCar g') \<and> PlayerCar_update k' (playerCar g') = Inr (playerCar g'))"
proof -
  obtain g1 where g1: "g' = checkRaceFinished g1" "\<not> raceFinished g1"
    using draw_playing [OF assms(1,3)] assms(2) by auto
  have l: "LAPS_TO_WIN \<le> laps (playerCar g1) \<or> (\<exists>a \<in> set (aiCars g1). LAPS_TO_WIN \<le> laps a)"
    using assms(4) g1(1) by (simp add: checkRaceFinished_laps checkRaceFinished_cars)
  note o = checkRaceFinished_over [OF g1(2) l]
  have s: "gameState g' \<noteq> playing" "raceFinished g'" using o g1(1) by simp_all
  have p: "finished (playerCar g') \<and> PlayerCar_update k' (playerCar g') = Inr (playerCar g')"
    if "LAPS_TO_WIN \<le> laps (playerCar g')"
    using that o g1(1) by (simp add: checkRaceFinished_laps PlayerCar_update_def)
  show ?thesis using s p draw_frames_stopped [OF s(1), of ks] by blast
qed

lemma playerStart_fields:
  "velocity playerStart = (0, 0)" "position playerStart = (20, 100)" "angle playerStart = 0"
  "friction playerStart = 97 / 100" "drift_factor playerStart = 9 / 10"
  "nitroActive playerStart = False" "maxspeed playerStart = 6" "nitroMaxspeed playerStart = 10"
  "autoMode playerStart = False" "finished playerStart = False" "track playerStart = Some trackY"
  "nitroFuel playerStart = 100" "nitroMaxFuel playerStart = 100"
  "nitroRechargeRate playerStart = 3 / 10"
  "r playerStart = 12" "lastCheckpoint playerStart = 0" "waypointReachDistance playerStart = 65"
  "oilTimer playerStart = 0" "slowdownTimer playerStart = 0" "laps playerStart = 0"
  by (simp_all add: playerStart_def PlayerCar_new_def trackY_def vec_heading_def atan2_def vec_sub_def)

lemma playerStart_same:
  "playerStart\<lparr>nitroActive := False\<rparr> = playerStart"
  "playerStart\<lparr>nitroFuel := 100\<rparr> = playerStart"
  "playerStart\<lparr>position := (20, 100), velocity := (0, 0)\<rparr> = playerStart"
  "playerStart\<lparr>velocity := (0, 0), position := (20, 100)\<rparr> = playerStart"
  by (simp_all add: playerStart_def PlayerCar_new_def)

lemma playerStart_frame: "PlayerCar_update noKeys playerStart = Inr playerStart"
proof -
  have h1: "handleInput noKeys playerStart = playerStart"
    by (simp add: handleInput_def Let_def noKeys_def playerStart_fields playerStart_same)
  have h2: "updateNitro playerStart = playerStart"
    by (simp add: updateNitro_def Let_def playerStart_fields playerStart_same)
  have i: "PlayerCar_update_integrate noKeys playerStart = Inr playerStart"
    by (simp add: PlayerCar_update_integrate_def playerStart_fields h1 h2 and_then_def Let_def
        vec_add_def vec_mult_def vec_fromAngle_def vec_dot_def vec_lerp_def
        vec_limit_def vec_magSq_def playerStart_same)
  have f: "getTrackBoundaryForce trackY (20, 100) (0, 0) = Inr (0, 0)"
    by (simp add: trackY_def getTrackBoundaryForce_def getClosestWaypointIndex_def Let_def
        vec_dist_def vec_sub_def vec_mag_x0)
  have b: "handleBoundary playerStart = Inr playerStart"
    by (simp add: handleBoundary_def playerStart_fields f and_then_def vec_mag_x0)
  have o: "handleObstacles playerStart = playerStart"
    by (simp add: handleObstacles_def playerStart_fields Let_def checkObstacleCollision_def trackY_def)
  have w: "checkWaypoints playerStart = Inr playerStart"
    by (simp add: checkWaypoints_def playerStart_fields Let_def trackY_def
        vec_dist_def vec_sub_def vec_mag_x0)
  have e: "edges playerStart = playerStart"
    by (simp add: edges_def Let_def width_def height_def playerStart_fields)
  show ?thesis
    by (simp add: PlayerCar_update_def playerStart_fields i b o w e and_then_def)
qed

lemma aiLastWaypoint_fields:
  "laps aiLastWaypoint = 1" "finished aiLastWaypoint = False" "position aiLastWaypoint = (200, 100)"
  "velocity aiLastWaypoint = (3, 0)" "acceleration aiLastWaypoint = (0, 0)"
  "maxspeed aiLastWaypoint = 4" "r aiLastWaypoint = 10"
  "track aiLastWaypoint = Some trackY" "currentWaypointIndex aiLastWaypoint = 1"
  "lastCheckpoint aiLastWaypoint = 1" "checkpointsReached aiLastWaypoint = 1"
  "waypointReachDistance aiLastWaypoint = 55"
  "maxforce aiLastWaypoint = 6 / 25" "pathWeight aiLastWaypoint = 3 / 2"
  "separationWeight aiLastWaypoint = 5 / 2"
  "boundaryWeight aiLastWaypoint = 2" "desiredSeparation aiLastWaypoint = 50"
  by (simp_all add: aiLastWaypoint_def FollowerCar_new_def)

lemma aiLastWaypoint_frame:
  "and_then (applyBehaviors [aiLastWaypoint] 0 playerStart aiLastWaypoint)
     (\<lambda>c. Inr (FollowerCar_update c)) = Inr aiOverTheLine"
proof -
  let ?a1 = "aiLastWaypoint\<lparr>currentWaypointIndex := 0, laps := 2, checkpointsReached := 0,
                            lastCheckpoint := 0\<rparr>"
  have fp: "followPath aiLastWaypoint = Inr (?a1, (- (6 / 25), 0))"
    by (simp add: followPath_def aiLastWaypoint_fields trackY_def Let_def seek_def vec_dist_def
        vec_sub_def vec_mag_x0 vec_setMag_def vec_normalize_def vec_mult_def vec_limit_x0)
  have sp: "separate ?a1 0 [aiLastWaypoint] = (0, 0)"
    by (simp add: separate_def Let_def vec_mag_x0)
  have av: "avoidCar ?a1 playerStart = (0, 0)"
    by (simp add: avoidCar_def Let_def aiLastWaypoint_fields playerStart_fields vec_dist_def
        vec_sub_def vec_mag_x0)
  have bd: "avoidBoundary ?a1 = Inr (0, 0)"
    by (simp add: avoidBoundary_def aiLastWaypoint_fields trackY_def getTrackBoundaryForce_def
        getClosestWaypointIndex_def Let_def vec_dist_def vec_sub_def vec_mag_x0)
  have ab: "applyBehaviors [aiLastWaypoint] 0 playerStart aiLastWaypoint
              = Inr (?a1\<lparr>acceleration := (- (9 / 25), 0)\<rparr>)"
    by (simp add: applyBehaviors_def aiLastWaypoint_fields fp sp av bd and_then_def Let_def
        applyForce_def vec_mult_def vec_add_def)
  have up: "FollowerCar_update (?a1\<lparr>acceleration := (- (9 / 25), 0)\<rparr>) = aiOverTheLine"
    by (simp add: FollowerCar_update_def edges_def Vehicule_update_def Let_def
        aiLastWaypoint_fields aiOverTheLine_def
        vec_add_def vec_mult_def vec_limit_def vec_magSq_def width_def height_def)
  show ?thesis by (simp add: ab up and_then_def)
qed

lemma raceLastFrame_draw: "draw noKeys raceLastFrame = Inr raceOver"
proof -
  have ai: "updateGame_ai (Suc 0) 0 playerStart [aiLastWaypoint] = Inr [aiOverTheLine]"
    using aiLastWaypoint_frame
    by (auto simp add: and_then_def split: sum.splits)
  have l: "laps aiOverTheLine = 2" by (simp add: aiOverTheLine_def)
  have c: "checkRaceFinished (raceLastFrame\<lparr>playerCar := playerStart, aiCars := [aiOverTheLine]\<rparr>)
             = raceOver"
    by (simp add: checkRaceFinished_def raceLastFrame_def raceOver_def LAPS_TO_WIN_def
        playerStart_fields l)
  have g: "gameState raceLastFrame = playing" "playerCar raceLastFrame = playerStart"
    "aiCars raceLastFrame = [aiLastWaypoint]"
    by (simp_all add: raceLastFrame_def)
  show ?thesis
    by (simp add: draw_def updateGame_def g playerStart_frame ai c and_then_def
        del: updateGame_ai.simps)
qed

theorem finished_competitor_is_frozen_witness:
  "draw noKeys raceLastFrame = Inr raceOver
   \<and> map laps (aiCars raceLastFrame) = [1] \<and> map laps (aiCars raceOver) = [2]
   \<and> gameState raceOver = raceLost
   \<and> draw_frames [noKeys, shiftKey, noKeys] raceOver = Inr raceOver
   \<and> map position (aiCars raceOver) = [(5066 / 25, 100)]
   \<and> map velocity (aiCars raceOver) = [(66 / 25, 0)]"
proof -
  have h: "gameState raceLastFrame = playing" "\<not> raceFinished raceLastFrame"
    by (simp_all add: raceLastFrame_def)
  have l: "LAPS_TO_WIN \<le> laps (playerCar raceOver)
           \<or> (\<exists>a \<in> set (aiCars raceOver). LAPS_TO_WIN \<le> laps a)"
    by (simp add: raceOver_def aiOverTheLine_def LAPS_TO_WIN_def)
  note t = finished_competitor_is_frozen [OF h raceLastFrame_draw l, of "[noKeys, shiftKey, noKeys]" noKeys]
  have f: "map laps (aiCars raceLastFrame) = [1]" "map laps (aiCars raceOver) = [2]"
    "gameState raceOver = raceLost"
    "map position (aiCars raceOver) = [(5066 / 25, 100)]"
    "map velocity (aiCars raceOver) = [(66 / 25, 0)]"
    by (simp_all add: raceLastFrame_def raceOver_def aiOverTheLine_def aiLastWaypoint_fields)
  show ?thesis using t f raceLastFrame_draw by simp
qed

section \<open>Where the lap of an opponent is counted\<close>

lemma follower0_fields:
  "track (follower0 n) = Some track80" "lastCheckpoint (follower0 n) = 0"
  "currentWaypointIndex (follower0 n) = 0"
  "checkpointsReached (follower0 n) = n" "laps (follower0 n) = 0"
  "position (follower0 n) = (0, 0)" "waypointReachDistance (follower0 n) = 55"
  by (simp_all add: follower0_def FollowerCar_new_def)

text \<open>
  C2. On the track of 80 waypoints, with 70 checkpoints counted. The player standing on
  waypoint 0, having last passed waypoint 79, gets its lap there. An opponent standing on
  waypoint 0 and after waypoint 0 reaches it and gets no lap: its index moves on to 1 and
  its counter to 71. An opponent standing on waypoint 79 gets the lap there, one waypoint
  before the line, because \<open>followPath\<close> tests the index after advancing it.
\<close>

theorem opponent_lap_counted_before_waypoint_0:
  "position (follower0 70) = waypoints track80 ! 0
   \<and> (\<exists>a' f. followPath (follower0 70) = Inr (a', f) \<and> laps a' = laps (follower0 70)
         \<and> currentWaypointIndex a' = 1 \<and> lastCheckpoint a' = 1 \<and> checkpointsReached a' = 71)
   \<and> position (follower79 70) = waypoints track80 ! 79
   \<and> (\<exists>a' f. followPath (follower79 70) = Inr (a', f) \<and> laps a' = laps (follower79 70) + 1
         \<and> currentWaypointIndex a' = 0 \<and> lastCheckpoint a' = 0 \<and> checkpointsReached a' = 0)
   \<and> position (player79 70) = waypoints track80 ! 0
   \<and> (\<exists>c'. checkWaypoints (player79 70) = Inr c' \<and> laps c' = laps (player79 70) + 1
         \<and> lastCheckpoint c' = 0 \<and> checkpointsReached c' = 0)"
proof -
  have d: "vec_dist (0, 0) (0, 0) < 55" "vec_dist (790, 0) (790, 0) < 55" "vec_dist (0, 0) (0, 0) < 65"
    by (simp_all add: vec_dist_def vec_sub_def vec_mag_x0)
  have 1: "\<exists>a' f. followPath (follower0 70) = Inr (a', f) \<and> laps a' = laps (follower0 70)
         \<and> currentWaypointIndex a' = 1 \<and> lastCheckpoint a' = 1 \<and> checkpointsReached a' = 71"
    using followPath_rule [of "follower0 70" track80]
    by (auto simp add: follower0_fields track80_facts d)
  have 2: "\<exists>a' f. followPath (follower79 70) = Inr (a', f) \<and> laps a' = laps (follower79 70) + 1
         \<and> currentWaypointIndex a' = 0 \<and> lastCheckpoint a' = 0 \<and> checkpointsReached a' = 0"
    using followPath_rule [of "follower79 70" track80]
    by (auto simp add: follower79_fields track80_facts d)
  have 3: "\<exists>c'. checkWaypoints (player79 70) = Inr c' \<and> laps c' = laps (player79 70) + 1
         \<and> lastCheckpoint c' = 0 \<and> checkpointsReached c' = 0"
    using checkWaypoints_rule [of "player79 70" track80]
    by (auto simp add: player79_fields track80_facts d)
  show ?thesis
    using 1 2 3 by (simp add: follower0_fields follower79_fields player79_fields track80_facts)
qed

end
